theory Spec2Isabelle
  imports Complex_Main
begin

section \<open>Three.js vectors over the reals\<close>

text \<open>
  A \<^verbatim>\<open>THREE.Vector3\<close> holds three numbers.  The geometry of the complex is stated in
  exact real arithmetic, so the components are reals.  The operations follow the
  methods of \<^verbatim>\<open>Vector3\<close> that the sources call: \<^verbatim>\<open>multiplyScalar\<close>, \<^verbatim>\<open>dot\<close>,
  \<^verbatim>\<open>length\<close>, \<^verbatim>\<open>normalize\<close> (which divides by \<^verbatim>\<open>length() || 1\<close>, so the zero vector
  stays zero), \<^verbatim>\<open>crossVectors\<close>, \<^verbatim>\<open>addScaledVector\<close>, \<^verbatim>\<open>negate\<close>, \<^verbatim>\<open>sub\<close>,
  \<^verbatim>\<open>distanceTo\<close> and \<^verbatim>\<open>angleTo\<close>.
\<close>

datatype vec3 = Vector3 (vx: real) (vy: real) (vz: real)

definition multiplyScalar :: "vec3 \<Rightarrow> real \<Rightarrow> vec3" where
  "multiplyScalar v s = Vector3 (vx v * s) (vy v * s) (vz v * s)"

definition dot :: "vec3 \<Rightarrow> vec3 \<Rightarrow> real" where
  "dot a b = vx a * vx b + vy a * vy b + vz a * vz b"

definition lengthSq :: "vec3 \<Rightarrow> real" where
  "lengthSq v = vx v * vx v + vy v * vy v + vz v * vz v"

definition lengthV :: "vec3 \<Rightarrow> real" where
  "lengthV v = sqrt (lengthSq v)"

definition divideScalar :: "vec3 \<Rightarrow> real \<Rightarrow> vec3" where
  "divideScalar v s = multiplyScalar v (1 / s)"

definition normalize :: "vec3 \<Rightarrow> vec3" where
  "normalize v = divideScalar v (if lengthV v = 0 then 1 else lengthV v)"

definition crossVectors :: "vec3 \<Rightarrow> vec3 \<Rightarrow> vec3" where
  "crossVectors a b =
     Vector3 (vy a * vz b - vz a * vy b)
             (vz a * vx b - vx a * vz b)
             (vx a * vy b - vy a * vx b)"

definition addScaledVector :: "vec3 \<Rightarrow> vec3 \<Rightarrow> real \<Rightarrow> vec3" where
  "addScaledVector this v s =
     Vector3 (vx this + vx v * s) (vy this + vy v * s) (vz this + vz v * s)"

definition negate :: "vec3 \<Rightarrow> vec3" where
  "negate v = Vector3 (- vx v) (- vy v) (- vz v)"





definition degToRad :: "real \<Rightarrow> real" where
  "degToRad degrees = degrees * (pi / 180)"

definition origin :: vec3 where
  "origin = Vector3 0 0 0"

section \<open>Scene objects\<close>

text \<open>
  Materials are compared by identity in the sources only against the shared
  \<^verbatim>\<open>highlightMaterial\<close>; the other materials are the shared ones of
  \<^verbatim>\<open>materials.js\<close>, clones of them, the materials \<^verbatim>\<open>buildFreeWater\<close> constructs, and
  the electron-density variant of stage 3.
\<close>

datatype material =
    aluminumMaterial
  | oxygenMaterial
  | hydrogenMaterial
  | highlightMaterial
  | Clone material
  | coordinationBondMaterial
  | covalentBondMaterial
  | FreeOxygenMaterial
  | FreeHydrogenMaterial
  | ElectronDensityVariant material real

datatype kind = Mesh | Group | Line | SceneRoot | Light | CSS2DObject

text \<open>
  The geometry of an object: a sphere (radius, width and height segments) for an atom,
  the points of a \<^verbatim>\<open>BufferGeometry\<close> for a bond line.
\<close>

datatype geometry = NoGeometry | SphereGeometry real nat nat | BufferGeometry "vec3 list"

text \<open>
  \<^verbatim>\<open>userData\<close> carries three optional strings; a missing key reads as
  \<^verbatim>\<open>undefined\<close>, here \<open>None\<close>.
\<close>

record userdata =
  element :: "string option"
  role :: "string option"
  charge :: "string option"

definition no_userData :: userdata where
  "no_userData = \<lparr>element = None, role = None, charge = None\<rparr>"

text \<open>
  The field \<open>labelDiv\<close> is the \<^verbatim>\<open>className\<close> and \<^verbatim>\<open>textContent\<close> of the element a
  \<^verbatim>\<open>CSS2DObject\<close> label wraps.
  Every \<^verbatim>\<open>Object3D\<close> receives a fresh numeric \<^verbatim>\<open>id\<close> from a global counter when it
  is constructed; the model threads that counter through the constructors and uses
  the id as the identity of the object.
\<close>

record attrs =
  oid :: nat
  okind :: kind
  oname :: string
  position :: vec3
  rotation :: vec3
  scale :: vec3
  visible :: bool
  material :: "material option"
  geometry :: geometry
  userData :: userdata
  labelDiv :: "(string \<times> string) option"

datatype obj3d = Obj3D (attrs: attrs) (children: "obj3d list")

definition newObject :: "kind \<Rightarrow> nat \<Rightarrow> attrs" where
  "newObject k n =
     \<lparr>oid = n, okind = k, oname = '''', position = origin, rotation = origin,
      scale = Vector3 1 1 1, visible = True, material = None, geometry = NoGeometry,
      userData = no_userData, labelDiv = None\<rparr>"

definition newMesh :: "geometry \<Rightarrow> material \<Rightarrow> nat \<Rightarrow> attrs" where
  "newMesh g m n = (newObject Mesh n)\<lparr>geometry := g, material := Some m\<rparr>"

definition isMesh :: "obj3d \<Rightarrow> bool" where
  "isMesh obj = (okind (attrs obj) = Mesh)"

definition isGroup :: "obj3d \<Rightarrow> bool" where
  "isGroup obj = (okind (attrs obj) = Group)"

text \<open>\<^verbatim>\<open>Object3D.traverse\<close>: the object itself, then its children, depth first.\<close>

fun traverse :: "obj3d \<Rightarrow> obj3d list" where
  "traverse (Obj3D a cs) = Obj3D a cs # concat (map traverse cs)"

text \<open>A child by its name, as \<^verbatim>\<open>children.find(c => c.name === 'O')\<close> finds it.\<close>

definition findByName :: "string \<Rightarrow> obj3d list \<Rightarrow> obj3d option" where
  "findByName nm cs = find (\<lambda>c. oname (attrs c) = nm) cs"

section \<open>atoms.js: the octahedral complex\<close>

definition R_AL_O :: real where
  "R_AL_O = 190 / 100"

definition R_O_H :: real where
  "R_O_H = 96 / 100"

definition H_O_H_ANGLE :: real where
  "H_O_H_ANGLE = degToRad (1045 / 10)"

definition SPHERE_SEGMENTS :: nat where
  "SPHERE_SEGMENTS = 32"

definition RADII_Al :: real where
  "RADII_Al = 45 / 100"

definition RADII_O :: real where
  "RADII_O = 30 / 100"

definition RADII_H :: real where
  "RADII_H = 18 / 100"

definition OCTA_DIRS :: "vec3 list" where
  "OCTA_DIRS =
     [Vector3 1 0 0, Vector3 (- 1) 0 0,
      Vector3 0 1 0, Vector3 0 (- 1) 0,
      Vector3 0 0 1, Vector3 0 0 (- 1)]"

text \<open>The two non-ASCII strings of the user data, as their UTF-8 bytes.\<close>

definition delta_minus :: string where
  "delta_minus = [CHR 0xCE, CHR 0xB4, CHR 0xE2, CHR 0x88, CHR 0x92]"

definition delta_plus :: string where
  "delta_plus = [CHR 0xCE, CHR 0xB4, CHR ''+'']"

definition createAlCenter :: "nat \<Rightarrow> obj3d \<times> nat" where
  "createAlCenter n =
     (Obj3D ((newMesh (SphereGeometry RADII_Al SPHERE_SEGMENTS SPHERE_SEGMENTS) aluminumMaterial n)
               \<lparr>oname := ''Al'',
                userData := \<lparr>element = Some ''Al'',
                              role = Some ''Metal center (Lewis acid)'',
                              charge = Some ''+3''\<rparr>\<rparr>) [],
      n + 1)"

text \<open>The template literal \<^verbatim>\<open>`H${i + 1}`\<close> for the loop indices 0 and 1.\<close>

fun digit_string :: "nat \<Rightarrow> string" where
  "digit_string n =
     (if n < 10 then [''0123456789'' ! n]
      else digit_string (n div 10) @ [''0123456789'' ! (n mod 10)])"

declare digit_string.simps [simp del]

definition hydrogenDir :: "vec3 \<Rightarrow> vec3 \<Rightarrow> real \<Rightarrow> nat \<Rightarrow> vec3" where
  "hydrogenDir zAxis xAxis halfAngle i =
     normalize
       (addScaledVector
          (addScaledVector origin zAxis (cos (pi - halfAngle)))
          (if i = 0 then xAxis else negate xAxis)
          (sin (pi - halfAngle)))"

definition createHydrogen :: "vec3 \<Rightarrow> vec3 \<Rightarrow> vec3 \<Rightarrow> real \<Rightarrow> nat \<Rightarrow> nat \<Rightarrow> obj3d" where
  "createHydrogen oPos zAxis xAxis halfAngle n i =
     Obj3D ((newMesh (SphereGeometry RADII_H SPHERE_SEGMENTS SPHERE_SEGMENTS)
                (Clone hydrogenMaterial) (n + i))
              \<lparr>oname := ''H'' @ digit_string (i + 1),
               userData := \<lparr>element = Some ''H'',
                             role = Some ''Proton (may dissociate in hydrolysis)'',
                             charge = Some delta_plus\<rparr>,
               position := addScaledVector oPos (hydrogenDir zAxis xAxis halfAngle i) R_O_H\<rparr>) []"

definition createWaterMolecule :: "vec3 \<Rightarrow> nat \<Rightarrow> obj3d \<times> nat" where
  "createWaterMolecule direction n =
     (let oPos = multiplyScalar direction R_AL_O;
          oMesh = Obj3D ((newMesh (SphereGeometry RADII_O SPHERE_SEGMENTS SPHERE_SEGMENTS)
                           (Clone oxygenMaterial) (n + 1))
                    \<lparr>oname := ''O'',
                     userData := \<lparr>element = Some ''O'',
                                   role = Some ''Electron-pair donor (Lewis base)'',
                                   charge = Some delta_minus\<rparr>,
                     position := oPos\<rparr>) [];
          halfAngle = H_O_H_ANGLE / 2;
          zAxis = normalize direction;
          arbitrary = (if \<bar>dot zAxis (Vector3 0 1 0)\<bar> > 99 / 100
                       then Vector3 1 0 0 else Vector3 0 1 0);
          xAxis = normalize (crossVectors zAxis arbitrary);
          hMeshes = map (createHydrogen oPos zAxis xAxis halfAngle (n + 2)) [0 ..< 2]
      in (Obj3D ((newObject Group n)\<lparr>oname := ''Water''\<rparr>) (oMesh # hMeshes), n + 4))"

text \<open>
  The loop of \<^verbatim>\<open>buildComplex\<close> over \<^verbatim>\<open>OCTA_DIRS\<close>: each water is pushed on \<^verbatim>\<open>waters\<close>
  (and added to the complex), the id counter runs on.
\<close>

fun createWaters :: "vec3 list \<Rightarrow> nat \<Rightarrow> obj3d list \<times> nat" where
  "createWaters [] n = ([], n)"
| "createWaters (dir # dirs) n =
     (let (water, n') = createWaterMolecule dir n;
          (waters, n'') = createWaters dirs n'
      in (water # waters, n''))"

record complex_parts =
  complex :: obj3d
  al :: obj3d
  waters :: "obj3d list"

definition buildComplex :: "nat \<Rightarrow> complex_parts \<times> nat" where
  "buildComplex n =
     (let (alMesh, n1) = createAlCenter (n + 1);
          (ws, n2) = createWaters OCTA_DIRS n1
      in (\<lparr>complex = Obj3D ((newObject Group n)\<lparr>oname := ''AlComplex''\<rparr>) (alMesh # ws),
           al = alMesh, waters = ws\<rparr>, n2))"



section \<open>Scene graph operations of Three.js\<close>

text \<open>
  Objects are referred to by their ids.  \<open>getObject\<close> dereferences an id in a tree,
  \<open>update_obj\<close> assigns to the fields of the object with a given id.
\<close>

definition getObject :: "obj3d \<Rightarrow> nat \<Rightarrow> obj3d option" where
  "getObject tree i = find (\<lambda>obj. oid (attrs obj) = i) (traverse tree)"

fun update_obj :: "nat \<Rightarrow> (attrs \<Rightarrow> attrs) \<Rightarrow> obj3d \<Rightarrow> obj3d" where
  "update_obj i f (Obj3D a cs) =
     Obj3D (if oid a = i then f a else a) (map (update_obj i f) cs)"

text \<open>\<^verbatim>\<open>parent.remove(child)\<close> and \<^verbatim>\<open>parent.add(child)\<close>, the parent given by its id.\<close>

fun remove_obj :: "nat \<Rightarrow> obj3d \<Rightarrow> obj3d" where
  "remove_obj i (Obj3D a cs) =
     Obj3D a (map (remove_obj i) (filter (\<lambda>c. oid (attrs c) \<noteq> i) cs))"

fun add_child :: "nat \<Rightarrow> obj3d \<Rightarrow> obj3d \<Rightarrow> obj3d" where
  "add_child p c (Obj3D a cs) =
     Obj3D a (map (add_child p c) cs @ (if oid a = p then [c] else []))"

text \<open>
  The rotation of a vector by the Euler angles of an object (order XYZ, the default),
  and the map from the local frame of an object to the frame of its parent:
  scale, rotate, translate.
\<close>

definition applyEuler :: "vec3 \<Rightarrow> vec3 \<Rightarrow> vec3" where
  "applyEuler v r =
     (let a = cos (vx r); b = sin (vx r);
          c = cos (vy r); d = sin (vy r);
          e = cos (vz r); f = sin (vz r)
      in Vector3
           (c * e * vx v - c * f * vy v + d * vz v)
           ((a * f + b * e * d) * vx v + (a * e - b * f * d) * vy v - b * c * vz v)
           ((b * f - a * e * d) * vx v + (b * e + a * f * d) * vy v + a * c * vz v))"

definition localToParent :: "attrs \<Rightarrow> vec3 \<Rightarrow> vec3" where
  "localToParent a p =
     addScaledVector (position a)
       (applyEuler (Vector3 (vx (scale a) * vx p) (vy (scale a) * vy p) (vz (scale a) * vz p))
          (rotation a)) 1"

fun worldPositions :: "(vec3 \<Rightarrow> vec3) \<Rightarrow> obj3d \<Rightarrow> (nat \<times> vec3) list" where
  "worldPositions toWorld (Obj3D a cs) =
     (oid a, toWorld (position a)) #
     concat (map (worldPositions (\<lambda>p. toWorld (localToParent a p))) cs)"

definition getWorldPosition :: "obj3d \<Rightarrow> nat \<Rightarrow> vec3 option" where
  "getWorldPosition tree i = map_of (worldPositions (\<lambda>p. p) tree) i"

text \<open>
  \<^verbatim>\<open>scene.attach(object)\<close> moves the object under \<open>tree\<close> and keeps its world
  transform.  The new position is the object's position in the frame of \<open>tree\<close>.  The
  object keeps its own rotation and scale here, which is what the decomposition of
  Three.js yields when the former ancestors are neither rotated nor scaled; that is the
  situation in which stage 3 calls it.
\<close>

definition attach :: "nat \<Rightarrow> obj3d \<Rightarrow> obj3d" where
  "attach i tree =
     (case (getObject tree i,
            map_of (concat (map (worldPositions (\<lambda>p. p)) (children tree))) i) of
        (Some obj, Some w) \<Rightarrow>
          (case remove_obj i tree of
             Obj3D ra rcs \<Rightarrow>
               Obj3D ra (rcs @ [Obj3D ((attrs obj)\<lparr>position := w\<rparr>) (children obj)]))
      | _ \<Rightarrow> tree)"

section \<open>bonds.js\<close>

definition createDashedBond :: "vec3 \<Rightarrow> vec3 \<Rightarrow> nat \<Rightarrow> obj3d" where
  "createDashedBond from to n =
     Obj3D ((newObject Line n)
              \<lparr>oname := ''CoordBond'', geometry := BufferGeometry [from, to],
               material := Some (Clone coordinationBondMaterial)\<rparr>) []"

definition createSolidBond :: "vec3 \<Rightarrow> vec3 \<Rightarrow> nat \<Rightarrow> obj3d" where
  "createSolidBond from to n =
     Obj3D ((newObject Line n)
              \<lparr>oname := ''CovalentBond'', geometry := BufferGeometry [from, to],
               material := Some (Clone covalentBondMaterial)\<rparr>) []"

definition startsWith :: "string \<Rightarrow> string \<Rightarrow> bool" where
  "startsWith s p = (take (length p) s = p)"

text \<open>
  The body of the loop of \<^verbatim>\<open>buildBonds\<close> for one water: nothing when the group has no
  child named O, else one dashed bond and a solid bond for each child whose name starts
  with H.  World positions are read in the tree \<open>tree\<close> that the objects hang in; an object
  outside that tree has no parent and its world position is its own position.
\<close>

definition worldPositionOf :: "obj3d \<Rightarrow> obj3d \<Rightarrow> vec3" where
  "worldPositionOf tree obj =
     (case getWorldPosition tree (oid (attrs obj)) of
        Some w \<Rightarrow> w
      | None \<Rightarrow> position (attrs obj))"

fun solidBonds :: "obj3d \<Rightarrow> vec3 \<Rightarrow> obj3d list \<Rightarrow> nat \<Rightarrow> obj3d list \<times> nat" where
  "solidBonds tree oPos [] n = ([], n)"
| "solidBonds tree oPos (h # hs) n =
     (let (bs, n') = solidBonds tree oPos hs (n + 1)
      in (createSolidBond oPos (worldPositionOf tree h) n # bs, n'))"

definition waterBonds :: "obj3d \<Rightarrow> vec3 \<Rightarrow> obj3d \<Rightarrow> nat \<Rightarrow> obj3d list \<times> nat" where
  "waterBonds tree alPos water n =
     (case findByName ''O'' (children water) of
        None \<Rightarrow> ([], n)
      | Some oxygen \<Rightarrow>
          (let oPos = worldPositionOf tree oxygen;
               hydrogens = filter (\<lambda>c. startsWith (oname (attrs c)) ''H'') (children water);
               (bs, n') = solidBonds tree oPos hydrogens (n + 1)
           in (createDashedBond alPos oPos n # bs, n')))"

fun allWaterBonds :: "obj3d \<Rightarrow> vec3 \<Rightarrow> obj3d list \<Rightarrow> nat \<Rightarrow> obj3d list \<times> nat" where
  "allWaterBonds tree alPos [] n = ([], n)"
| "allWaterBonds tree alPos (water # ws) n =
     (let (bs, n') = waterBonds tree alPos water n;
          (bs', n'') = allWaterBonds tree alPos ws n'
      in (bs @ bs', n''))"

definition buildBonds :: "obj3d \<Rightarrow> obj3d \<Rightarrow> obj3d list \<Rightarrow> nat \<Rightarrow> obj3d \<times> nat" where
  "buildBonds tree alMesh ws n =
     (let alPos = worldPositionOf tree alMesh;
          (bs, n') = allWaterBonds tree alPos ws (n + 1)
      in (Obj3D ((newObject Group n)\<lparr>oname := ''Bonds''\<rparr>) bs, n'))"

section \<open>The page: state of main.js and interaction.js\<close>

text \<open>
  A JavaScript number as far as the stage logic needs it: an integer or \<^verbatim>\<open>NaN\<close>.
  Strict equality \<^verbatim>\<open>===\<close> holds between equal integers and never for \<^verbatim>\<open>NaN\<close>.
\<close>

datatype jsnum = Num int | NaN

fun strict_eq :: "jsnum \<Rightarrow> jsnum \<Rightarrow> bool" where
  "strict_eq (Num a) (Num b) = (a = b)"
| "strict_eq _ _ = False"

datatype js_error = TypeError string

text \<open>
  A stage button: its \<^verbatim>\<open>data-stage\<close> attribute, its class list, and the text of its
  \<^verbatim>\<open>.stage-label\<close> child (\<open>None\<close> when \<^verbatim>\<open>querySelector\<close> finds none).
\<close>

record stage_btn =
  dataStage :: "string option"
  classList :: "string set"
  stageLabel :: "string option"

text \<open>
  The state of the page.  The scene graph, the camera position and the target of the
  orbit controls are the 3D state.  \<open>previousSelection\<close> and \<open>previousMaterial\<close> are the
  module variables of interaction.js (\<open>None\<close> is \<^verbatim>\<open>null\<close>; a selection is the id of
  the mesh).  The elements that interaction.js looks up once by id are \<open>None\<close> when
  \<^verbatim>\<open>getElementById\<close> returned \<^verbatim>\<open>null\<close>; of the info panel the class list is kept, of
  its text elements their \<^verbatim>\<open>textContent\<close>.  \<open>currentStage\<close> is the module variable of
  main.js, \<open>buttons\<close> the elements of class \<^verbatim>\<open>stage-btn\<close>, \<open>console\<close> the lines logged.
\<close>

record page =
  scene :: obj3d
  camera_position :: vec3
  controls_target :: vec3
  previousSelection :: "nat option"
  previousMaterial :: "material option"
  infoPanel :: "string set option"
  infoTitle :: "string option"
  infoElement :: "string option"
  infoRole :: "string option"
  infoCharge :: "string option"
  infoClose :: bool
  currentStage :: jsnum
  buttons :: "stage_btn list"
  console :: "string list"

section \<open>interaction.js\<close>

definition em_dash :: string where
  "em_dash = [CHR 0xE2, CHR 0x80, CHR 0x94]"

text \<open>\<^verbatim>\<open>value || dash\<close>: the em dash replaces \<^verbatim>\<open>undefined\<close> and the empty string.\<close>

definition or_dash :: "string option \<Rightarrow> string" where
  "or_dash v = (case v of None \<Rightarrow> em_dash | Some t \<Rightarrow> if t = [] then em_dash else t)"

text \<open>
  The guard \<^verbatim>\<open>previousSelection && previousMaterial\<close> and the assignment under it, which
  \<^verbatim>\<open>selectAtom\<close> and \<^verbatim>\<open>deselectAtom\<close> share.
\<close>

definition setMaterial :: "nat \<Rightarrow> material option \<Rightarrow> obj3d \<Rightarrow> obj3d" where
  "setMaterial i m tree = update_obj i (\<lambda>a. a\<lparr>material := m\<rparr>) tree"

definition materialOf :: "obj3d \<Rightarrow> nat \<Rightarrow> material option" where
  "materialOf tree i =
     (case getObject tree i of None \<Rightarrow> None | Some obj \<Rightarrow> material (attrs obj))"

definition restorePrevious :: "page \<Rightarrow> page" where
  "restorePrevious s =
     (case (previousSelection s, previousMaterial s) of
        (Some p, Some m) \<Rightarrow> s\<lparr>scene := setMaterial p (Some m) (scene s)\<rparr>
      | _ \<Rightarrow> s)"

text \<open>
  An assignment \<^verbatim>\<open>el.textContent = t\<close> to one of the text elements throws a
  \<^verbatim>\<open>TypeError\<close> when the element is \<^verbatim>\<open>null\<close>.  \<open>populate\<close> is the block under
  \<^verbatim>\<open>if (infoPanel)\<close>: four assignments in order, then the class \<^verbatim>\<open>hidden\<close> is removed;
  the first assignment that throws ends the handler with the state reached so far.
\<close>

definition populate :: "string set \<Rightarrow> attrs \<Rightarrow> page \<Rightarrow> js_error option \<times> page" where
  "populate cl a s =
     (if infoTitle s = None then (Some (TypeError ''infoTitle is null''), s)
      else let s1 = s\<lparr>infoTitle := Some (or_dash (Some (oname a)))\<rparr>
      in if infoElement s1 = None then (Some (TypeError ''infoElement is null''), s1)
      else let s2 = s1\<lparr>infoElement := Some (or_dash (element (userData a)))\<rparr>
      in if infoRole s2 = None then (Some (TypeError ''infoRole is null''), s2)
      else let s3 = s2\<lparr>infoRole := Some (or_dash (role (userData a)))\<rparr>
      in if infoCharge s3 = None then (Some (TypeError ''infoCharge is null''), s3)
      else let s4 = s3\<lparr>infoCharge := Some (or_dash (charge (userData a)))\<rparr>
      in (None, s4\<lparr>infoPanel := Some (cl - {''hidden''})\<rparr>))"

text \<open>
  \<^verbatim>\<open>selectAtom(mesh)\<close>.  The mesh is an object of the scene, given by its id; the
  pointer handler passes nothing else.  \<open>storeAndSwap\<close> is the first half of the function,
  up to the assignment of the highlight material.
\<close>

definition storeAndSwap :: "nat \<Rightarrow> page \<Rightarrow> page" where
  "storeAndSwap mesh s =
     (let s1 = restorePrevious s;
          s2 = s1\<lparr>previousSelection := Some mesh,
                  previousMaterial := materialOf (scene s1) mesh\<rparr>
      in s2\<lparr>scene := setMaterial mesh (Some highlightMaterial) (scene s2)\<rparr>)"

definition selectAtom :: "nat \<Rightarrow> page \<Rightarrow> js_error option \<times> page" where
  "selectAtom mesh s =
     (let s3 = storeAndSwap mesh s
      in case (getObject (scene s3) mesh, infoPanel s3) of
           (Some obj, Some cl) \<Rightarrow> populate cl (attrs obj) s3
         | _ \<Rightarrow> (None, s3))"

definition deselectAtom :: "page \<Rightarrow> page" where
  "deselectAtom s =
     (let s1 = (case (previousSelection s, previousMaterial s) of
                  (Some p, Some m) \<Rightarrow>
                    s\<lparr>scene := setMaterial p (Some m) (scene s),
                      previousSelection := None, previousMaterial := None\<rparr>
                | _ \<Rightarrow> s)
      in case infoPanel s1 of
           None \<Rightarrow> s1
         | Some cl \<Rightarrow> s1\<lparr>infoPanel := Some (insert ''hidden'' cl)\<rparr>)"

text \<open>
  The pointer handler.  What the ray set from the pointer coordinates and the
  camera hits is a parameter: \<open>raycast obj\<close> are the distances of the intersections of
  the ray with one object (\<^verbatim>\<open>Mesh.raycast\<close>).  \<^verbatim>\<open>intersectObjects(meshes, false)\<close>
  collects the intersections of the listed objects, not of their children, and sorts
  them by distance, ascending; the sort is stable.
\<close>

type_synonym hit = "real \<times> nat"

definition candidates :: "obj3d \<Rightarrow> obj3d list" where
  "candidates tree = filter isMesh (traverse tree)"

definition intersectObjects :: "(obj3d \<Rightarrow> real list) \<Rightarrow> obj3d list \<Rightarrow> hit list" where
  "intersectObjects raycast objs =
     sort_key fst (concat (map (\<lambda>obj. map (\<lambda>d. (d, oid (attrs obj))) (raycast obj)) objs))"

definition pointerdown :: "(obj3d \<Rightarrow> real list) \<Rightarrow> page \<Rightarrow> js_error option \<times> page" where
  "pointerdown raycast s =
     (let meshes = candidates (scene s);
          hits = intersectObjects raycast meshes
      in case hits of
           h # _ \<Rightarrow> selectAtom (snd h) s
         | [] \<Rightarrow> (None, deselectAtom s))"

text \<open>The click handler of the close button, registered only when the button exists.\<close>

definition closeClick :: "page \<Rightarrow> js_error option \<times> page" where
  "closeClick s = (None, deselectAtom s)"

datatype handler = PointerDown | CloseClick | StageClick nat

definition initInteraction :: "page \<Rightarrow> handler list" where
  "initInteraction s = PointerDown # (if infoClose s then [CloseClick] else [])"

section \<open>main.js\<close>

text \<open>
  \<^verbatim>\<open>parseInt(text, 10)\<close>: leading white space is skipped, a sign is read, then the
  longest run of decimal digits; without a digit the result is \<^verbatim>\<open>NaN\<close>.  A missing
  \<^verbatim>\<open>data-stage\<close> attribute reads as \<^verbatim>\<open>undefined\<close>, which parses to \<^verbatim>\<open>NaN\<close>.
\<close>

definition isSpace :: "char \<Rightarrow> bool" where
  "isSpace c = (c \<in> set [CHR '' '', CHR 0x09, CHR 0x0A, CHR 0x0B, CHR 0x0C, CHR 0x0D])"

definition isDigit :: "char \<Rightarrow> bool" where
  "isDigit c = (c \<in> set ''0123456789'')"

definition digitVal :: "char \<Rightarrow> int" where
  "digitVal c = int (length (takeWhile (\<lambda>d. d \<noteq> c) ''0123456789''))"

definition parseInt10 :: "string option \<Rightarrow> jsnum" where
  "parseInt10 text =
     (case text of
        None \<Rightarrow> NaN
      | Some s \<Rightarrow>
          (let t = dropWhile isSpace s;
               negative = (t \<noteq> [] \<and> hd t = CHR ''-'');
               u = (if t \<noteq> [] \<and> (hd t = CHR ''-'' \<or> hd t = CHR ''+'') then tl t else t);
               ds = takeWhile isDigit u;
               v = foldl (\<lambda>acc c. 10 * acc + digitVal c) 0 ds
           in if ds = [] then NaN else Num (if negative then - v else v)))"

definition jsnum_string :: "jsnum \<Rightarrow> string" where
  "jsnum_string v =
     (case v of
        NaN \<Rightarrow> ''NaN''
      | Num i \<Rightarrow> (if i < 0 then ''-'' @ digit_string (nat (- i)) else digit_string (nat i)))"

definition arrow :: string where
  "arrow = [CHR 0xE2, CHR 0x86, CHR 0x92]"

text \<open>
  The click handler of the stage button number \<open>k\<close> of the page.  Reading
  \<^verbatim>\<open>textContent\<close> of a missing \<^verbatim>\<open>.stage-label\<close> throws, after the assignments before it.
\<close>

definition stageClick :: "nat \<Rightarrow> page \<Rightarrow> js_error option \<times> page" where
  "stageClick k s =
     (if k < length (buttons s) then
        (let btn = buttons s ! k;
             stage = parseInt10 (dataStage btn)
         in if strict_eq stage (currentStage s) then (None, s)
            else
              (let s1 = s\<lparr>currentStage := stage\<rparr>;
                   s2 = s1\<lparr>buttons :=
                          map (\<lambda>b. b\<lparr>classList := classList b - {''active''}\<rparr>) (buttons s1)\<rparr>;
                   s3 = s2\<lparr>buttons :=
                          (buttons s2)[k := (buttons s2 ! k)
                             \<lparr>classList := insert ''active'' (classList (buttons s2 ! k))\<rparr>]\<rparr>
               in case stageLabel btn of
                    None \<Rightarrow> (Some (TypeError ''querySelector returned null''), s3)
                  | Some label \<Rightarrow>
                      (None, s3\<lparr>console := console s3 @
                         [arrow @ '' Stage '' @ jsnum_string stage @ '': '' @ label]\<rparr>)))
      else (None, s))"

text \<open>Dispatch of an event to its handler; the pointer event carries the ray.\<close>

definition handle :: "handler \<Rightarrow> (obj3d \<Rightarrow> real list) \<Rightarrow> page \<Rightarrow> js_error option \<times> page" where
  "handle h raycast s =
     (case h of
        PointerDown \<Rightarrow> pointerdown raycast s
      | CloseClick \<Rightarrow> closeClick s
      | StageClick k \<Rightarrow> stageClick k s)"

text \<open>
  The scene that main.js builds: the four lights, the complex, the bonds.  The camera
  is an object of its own, outside the scene graph.
\<close>

definition newLight :: "vec3 \<Rightarrow> nat \<Rightarrow> obj3d" where
  "newLight p n = Obj3D ((newObject Light n)\<lparr>position := p\<rparr>) []"

record main_objects =
  mainScene :: obj3d
  mainComplex :: complex_parts
  mainBonds :: obj3d
  nextId :: nat

definition buildMainScene :: main_objects where
  "buildMainScene =
     (let lights = [newLight origin 2, newLight (Vector3 5 8 4) 3,
                    newLight (Vector3 (- 4) 2 (- 3)) 4, newLight (Vector3 0 (- 4) (- 5)) 5];
          (parts, n) = buildComplex 6;
          scene1 = Obj3D (newObject SceneRoot 0) (lights @ [complex parts]);
          (bondsGroup, n') = buildBonds scene1 (al parts) (waters parts) n
      in \<lparr>mainScene = Obj3D (newObject SceneRoot 0) (lights @ [complex parts, bondsGroup]),
          mainComplex = parts, mainBonds = bondsGroup, nextId = n'\<rparr>)"

text \<open>
  The state once the modules have run, for a given document: the info elements found,
  the stage buttons.
\<close>

definition initialPage ::
  "string set option \<Rightarrow> string option \<Rightarrow> string option \<Rightarrow> string option \<Rightarrow> string option \<Rightarrow>
   bool \<Rightarrow> stage_btn list \<Rightarrow> page" where
  "initialPage panel title elt rl chg cls btns =
     \<lparr>scene = mainScene buildMainScene,
      camera_position = Vector3 4 3 5,
      controls_target = Vector3 0 0 0,
      previousSelection = None, previousMaterial = None,
      infoPanel = panel, infoTitle = title, infoElement = elt, infoRole = rl,
      infoCharge = chg, infoClose = cls,
      currentStage = Num 0, buttons = btns, console = []\<rparr>"

section \<open>labels.js and the electron-density material\<close>

definition createElectronDensityVariant :: "material \<Rightarrow> real \<Rightarrow> material" where
  "createElectronDensityVariant baseMat intensity = ElectronDensityVariant baseMat intensity"

text \<open>
  The label object that \<^verbatim>\<open>createFreeLabel(mesh, text, cssClass)\<close> constructs; the caller
  adds it to the mesh and to \<^verbatim>\<open>allLabels\<close>.
\<close>

definition freeLabel :: "string \<Rightarrow> string \<Rightarrow> nat \<Rightarrow> obj3d" where
  "freeLabel text cssClass n =
     Obj3D ((newObject CSS2DObject n)
              \<lparr>oname := ''label'', position := Vector3 0 (45 / 100) 0,
               labelDiv := Some (''atom-label '' @ cssClass, text)\<rparr>) []"

section \<open>stages.js\<close>

subsection \<open>Timelines of GSAP as data\<close>

text \<open>
  A timeline is the list of what was put on it: tweens (\<^verbatim>\<open>tl.to(target, vars, position)\<close>)
  and callbacks (\<^verbatim>\<open>tl.call(f, null, position)\<close>), each with its start time, and whether
  \<^verbatim>\<open>kill()\<close> was called on it.  A tween names the object it animates, the end values
  of the animated properties, and its options.
\<close>

datatype tval =
    Absolute real
  | Relative real
  | Flag bool
  | FreeOxygenPlus nat real

datatype target =
    PositionOf nat
  | RotationOf nat
  | ScaleOf nat
  | CameraPosition
  | ControlsTarget
  | MaterialOf "material option"
  | ObjectItself nat

record tween =
  tw_target :: target
  tw_vars :: "(string \<times> tval) list"
  tw_duration :: real
  tw_ease :: "string option"
  tw_repeat :: nat
  tw_yoyo :: bool
  tw_onUpdate :: bool

datatype callback =
    HideBonds
  | ShowBonds
  | SetGlow nat material
  | DetachHydrogen nat
  | RecordFreeOxygenPosition "nat option"
  | LabelHydronium

datatype entry = To tween real | Call callback real

record timeline =
  entries :: "entry list"
  killed :: bool

definition xyz :: "vec3 \<Rightarrow> (string \<times> tval) list" where
  "xyz v = [(''x'', Absolute (vx v)), (''y'', Absolute (vy v)), (''z'', Absolute (vz v))]"

definition tweenTo :: "target \<Rightarrow> (string \<times> tval) list \<Rightarrow> real \<Rightarrow> string \<Rightarrow> tween" where
  "tweenTo t vars d e =
     \<lparr>tw_target = t, tw_vars = vars, tw_duration = d, tw_ease = Some e,
      tw_repeat = 0, tw_yoyo = False, tw_onUpdate = False\<rparr>"

subsection \<open>Module state\<close>

text \<open>
  The module variables of stages.js.  \<open>st_scene\<close> is the scene graph that \<^verbatim>\<open>_scene\<close>
  refers to; \<open>st_camera\<close> and \<open>st_controls\<close> are \<^verbatim>\<open>_camera.position\<close> and
  \<^verbatim>\<open>_controls.target\<close>; the other references (\<^verbatim>\<open>_complex\<close>, \<^verbatim>\<open>_al\<close>, \<^verbatim>\<open>_waters\<close>,
  \<^verbatim>\<open>_bondsGroup\<close>, \<^verbatim>\<open>_freeWater\<close>) are ids of objects of that graph.  The two maps are
  \<^verbatim>\<open>savedPositions\<close> and \<^verbatim>\<open>savedMaterials\<close>.  \<open>timelines\<close> holds every timeline created so
  far, and \<open>activeTimeline\<close> (the variable \<^verbatim>\<open>_activeTimeline\<close>) is an index into it.
  \<open>stageDesc\<close> is the text and the class list of the description element, \<open>None\<close> when
  the page has none.  \<open>hWorldPos\<close> and \<open>freeOPos\<close> are the two vectors that the latest
  call of \<^verbatim>\<open>stageHydrolysis\<close> allocated for its callbacks.  \<open>allLabels\<close> is the array of
  labels.js, \<open>st_nextId\<close> the id counter.
\<close>

record stages =
  st_scene :: obj3d
  st_camera :: vec3
  st_controls :: vec3
  st_complex :: nat
  st_al :: nat
  st_waters :: "nat list"
  st_bondsGroup :: nat
  st_freeWater :: nat
  savedPositions :: "nat \<rightharpoonup> vec3"
  savedMaterials :: "nat \<rightharpoonup> material option"
  timelines :: "timeline list"
  activeTimeline :: "nat option"
  stageDesc :: "(string \<times> string set) option"
  hWorldPos :: vec3
  freeOPos :: vec3
  allLabels :: "nat list"
  st_nextId :: nat

definition sub2 :: string where
  "sub2 = [CHR 0xE2, CHR 0x82, CHR 0x82]"
definition sub3 :: string where
  "sub3 = [CHR 0xE2, CHR 0x82, CHR 0x83]"
definition sub6 :: string where
  "sub6 = [CHR 0xE2, CHR 0x82, CHR 0x86]"
definition sup3 :: string where
  "sup3 = [CHR 0xC2, CHR 0xB3]"
definition sup_plus :: string where
  "sup_plus = [CHR 0xE2, CHR 0x81, CHR 0xBA]"
definition en_dash :: string where
  "en_dash = [CHR 0xE2, CHR 0x80, CHR 0x93]"

definition STAGE_DESCRIPTIONS :: "string list" where
  "STAGE_DESCRIPTIONS =
     [''The octahedral aqua complex [Al(H'' @ sub2 @ ''O)'' @ sub6 @ '']'' @ sup3 @ sup_plus @
        '' '' @ em_dash @ '' six water molecules coordinate to the Al'' @ sup3 @ sup_plus @
        '' center via lone pairs on oxygen.'',
      ''The ionic lattice breaks apart. Ions separate and enter solution as individual species.'',
      ''Water molecules orient with their oxygen ('' @ delta_minus @
        '') toward the highly charged Al'' @ sup3 @ sup_plus @
        '' cation, forming coordination bonds.'',
      ''The intense electric field of Al'' @ sup3 @ sup_plus @ '' polarises an O'' @ en_dash @
        ''H bond. The weakened proton transfers to a nearby water molecule, forming H'' @
        sub3 @ ''O'' @ sup_plus @ ''.'']"

definition stageDescription :: "jsnum \<Rightarrow> string" where
  "stageDescription stage =
     (case stage of
        Num i \<Rightarrow> if 0 \<le> i \<and> i < int (length STAGE_DESCRIPTIONS)
                 then STAGE_DESCRIPTIONS ! nat i else []
      | NaN \<Rightarrow> [])"

definition updateDescription :: "jsnum \<Rightarrow> stages \<Rightarrow> stages" where
  "updateDescription stage s =
     (case stageDesc s of
        None \<Rightarrow> s
      | Some (t, cl) \<Rightarrow> s\<lparr>stageDesc := Some (stageDescription stage, cl - {''hidden''})\<rparr>)"

subsection \<open>Assignments to objects of the scene\<close>

definition setVisible :: "nat \<Rightarrow> bool \<Rightarrow> stages \<Rightarrow> stages" where
  "setVisible i b s = s\<lparr>st_scene := update_obj i (\<lambda>a. a\<lparr>visible := b\<rparr>) (st_scene s)\<rparr>"

definition setPosition :: "nat \<Rightarrow> vec3 \<Rightarrow> stages \<Rightarrow> stages" where
  "setPosition i p s = s\<lparr>st_scene := update_obj i (\<lambda>a. a\<lparr>position := p\<rparr>) (st_scene s)\<rparr>"

definition setRotation :: "nat \<Rightarrow> vec3 \<Rightarrow> stages \<Rightarrow> stages" where
  "setRotation i r s = s\<lparr>st_scene := update_obj i (\<lambda>a. a\<lparr>rotation := r\<rparr>) (st_scene s)\<rparr>"

definition assignMaterial :: "nat \<Rightarrow> material option \<Rightarrow> stages \<Rightarrow> stages" where
  "assignMaterial i m s = s\<lparr>st_scene := setMaterial i m (st_scene s)\<rparr>"

text \<open>The objects that \<^verbatim>\<open>_complex.traverse\<close> visits, and the children of a referenced object.\<close>

definition complexObjects :: "stages \<Rightarrow> obj3d list" where
  "complexObjects s =
     (case getObject (st_scene s) (st_complex s) of None \<Rightarrow> [] | Some c \<Rightarrow> traverse c)"

definition childrenOf :: "stages \<Rightarrow> nat \<Rightarrow> obj3d list" where
  "childrenOf s i =
     (case getObject (st_scene s) i of None \<Rightarrow> [] | Some obj \<Rightarrow> children obj)"

subsection \<open>Timeline bookkeeping\<close>

text \<open>
  \<^verbatim>\<open>const tl = gsap.timeline(); _activeTimeline = tl;\<close> opens every stage function.
  \<open>put\<close> appends entries to the active timeline.
\<close>

definition newTimeline :: "stages \<Rightarrow> stages" where
  "newTimeline s =
     s\<lparr>timelines := timelines s @ [\<lparr>entries = [], killed = False\<rparr>],
       activeTimeline := Some (length (timelines s))\<rparr>"

definition put :: "entry list \<Rightarrow> stages \<Rightarrow> stages" where
  "put es s =
     (case activeTimeline s of
        None \<Rightarrow> s
      | Some i \<Rightarrow>
          if i < length (timelines s)
          then s\<lparr>timelines := (timelines s)
                   [i := (timelines s ! i)\<lparr>entries := entries (timelines s ! i) @ es\<rparr>]\<rparr>
          else s)"

definition killActive :: "stages \<Rightarrow> stages" where
  "killActive s =
     (case activeTimeline s of
        None \<Rightarrow> s
      | Some i \<Rightarrow>
          s\<lparr>timelines := (if i < length (timelines s)
                            then (timelines s)[i := (timelines s ! i)\<lparr>killed := True\<rparr>]
                            else timelines s),
            activeTimeline := None\<rparr>)"

subsection \<open>initStages\<close>

fun snapshotPositions :: "obj3d list \<Rightarrow> (nat \<rightharpoonup> vec3) \<Rightarrow> (nat \<rightharpoonup> vec3)" where
  "snapshotPositions [] m = m"
| "snapshotPositions (obj # objs) m =
     snapshotPositions objs
       (if isMesh obj \<or> isGroup obj then m(oid (attrs obj) \<mapsto> position (attrs obj)) else m)"

fun snapshotMaterials ::
  "obj3d list \<Rightarrow> (nat \<rightharpoonup> material option) \<Rightarrow> (nat \<rightharpoonup> material option)" where
  "snapshotMaterials [] m = m"
| "snapshotMaterials (obj # objs) m =
     snapshotMaterials objs
       (if isMesh obj then m(oid (attrs obj) \<mapsto> material (attrs obj)) else m)"

definition freeHydrogen :: "vec3 \<Rightarrow> nat \<Rightarrow> nat \<Rightarrow> obj3d" where
  "freeHydrogen pos n i =
     Obj3D ((newMesh (SphereGeometry (18 / 100) 32 32) FreeHydrogenMaterial (n + i))
              \<lparr>position := pos, oname := ''H_free_'' @ digit_string (i + 1),
               userData := \<lparr>element = Some ''H'', role = Some ''Free water hydrogen'',
                             charge = Some delta_plus\<rparr>\<rparr>) []"

text \<open>
  \<^verbatim>\<open>buildFreeWater\<close>: the group, its oxygen with the label, the two hydrogens; the label
  is created last.  The second component is the id of the label, the third the counter.
\<close>

definition buildFreeWater :: "nat \<Rightarrow> obj3d \<times> nat \<times> nat" where
  "buildFreeWater n =
     (let hPositions = [Vector3 (76 / 100) (58 / 100) 0, Vector3 (- (76 / 100)) (58 / 100) 0];
          hMeshes = map (\<lambda>(pos, i). freeHydrogen pos (n + 2) i) (zip hPositions [0 ..< 2]);
          label = freeLabel (''H'' @ sub2 @ ''O'') ''label-o'' (n + 4);
          oMesh = Obj3D ((newMesh (SphereGeometry (30 / 100) 32 32) FreeOxygenMaterial (n + 1))
                    \<lparr>oname := ''O_free'',
                     userData := \<lparr>element = Some ''O'', role = Some ''Free water molecule'',
                                   charge = Some delta_minus\<rparr>\<rparr>) [label]
      in (Obj3D ((newObject Group n)\<lparr>oname := ''FreeWater''\<rparr>) (oMesh # hMeshes), n + 4, n + 5))"

text \<open>
  \<^verbatim>\<open>initStages(scene, camera, controls, complex, al, waters, bondsGroup)\<close>.  The scene
  comes with the positions of the camera and of the controls target, the other objects
  as ids in it; \<open>desc\<close> is the description element and \<open>labels\<close> the labels that exist
  already.
\<close>

definition initStages ::
  "obj3d \<Rightarrow> vec3 \<Rightarrow> vec3 \<Rightarrow> nat \<Rightarrow> nat \<Rightarrow> nat list \<Rightarrow> nat \<Rightarrow>
   (string \<times> string set) option \<Rightarrow> nat list \<Rightarrow> nat \<Rightarrow> stages" where
  "initStages scn camera controls cplx alId waterIds bondsGroup desc labels n =
     (let objs = (case getObject scn cplx of None \<Rightarrow> [] | Some c \<Rightarrow> traverse c);
          (fw, labelId, n') = buildFreeWater n;
          fw' = Obj3D ((attrs fw)\<lparr>visible := False\<rparr>) (children fw)
      in updateDescription (Num 0)
           \<lparr>st_scene = Obj3D (attrs scn) (children scn @ [fw']),
            st_camera = camera, st_controls = controls,
            st_complex = cplx, st_al = alId, st_waters = waterIds,
            st_bondsGroup = bondsGroup, st_freeWater = oid (attrs fw),
            savedPositions = snapshotPositions objs Map.empty,
            savedMaterials = snapshotMaterials objs Map.empty,
            timelines = [], activeTimeline = None, stageDesc = desc,
            hWorldPos = origin, freeOPos = origin,
            allLabels = labels @ [labelId], st_nextId = n'\<rparr>)"

subsection \<open>The stage functions\<close>

text \<open>
  The loop that three stage functions share: every mesh of the complex with a saved
  material gets that material back.
\<close>

definition restoreMaterials :: "stages \<Rightarrow> stages" where
  "restoreMaterials s =
     fold (\<lambda>obj s'.
             if isMesh obj then
               (case savedMaterials s (oid (attrs obj)) of
                  Some m \<Rightarrow> assignMaterial (oid (attrs obj)) m s'
                | None \<Rightarrow> s')
             else s')
          (complexObjects s) s"

text \<open>
  Stage 0.  The tweens that \<^verbatim>\<open>stageComplex\<close> creates while it traverses the complex:
  one for each mesh or group met that has a saved position.
\<close>

definition resetTweens :: "stages \<Rightarrow> entry list" where
  "resetTweens s =
     concat (map (\<lambda>obj.
        if isMesh obj \<or> isGroup obj then
          (case savedPositions s (oid (attrs obj)) of
             Some saved \<Rightarrow>
               [To (tweenTo (PositionOf (oid (attrs obj))) (xyz saved) 1 ''power2.inOut'') 0]
           | None \<Rightarrow> [])
        else []) (complexObjects s))"

definition stageComplex :: "stages \<Rightarrow> stages" where
  "stageComplex s =
     (let s1 = newTimeline s;
          s2 = setVisible (st_complex s1) True s1;
          s3 = setVisible (st_bondsGroup s2) True s2;
          s4 = setVisible (st_freeWater s3) False s3;
          s5 = restoreMaterials (put (resetTweens s4) s4)
      in put [To (tweenTo (ScaleOf (st_complex s5)) (xyz (Vector3 1 1 1)) (8 / 10)
                    ''power2.inOut'') 0,
              To (tweenTo CameraPosition (xyz (Vector3 4 3 5)) (12 / 10) ''power2.inOut'') 0,
              To ((tweenTo ControlsTarget (xyz (Vector3 0 0 0)) (12 / 10) ''power2.inOut'')
                    \<lparr>tw_onUpdate := True\<rparr>) 0] s5)"

text \<open>
  Stage 1.  \<open>rnd\<close> are the results of the successive calls of \<^verbatim>\<open>Math.random\<close>, \<open>r\<close>
  counts the calls made, \<open>i\<close> is the index that \<^verbatim>\<open>forEach\<close> passes.
\<close>

fun explodeWaters :: "stages \<Rightarrow> (nat \<Rightarrow> real) \<Rightarrow> nat \<Rightarrow> nat \<Rightarrow> nat list \<Rightarrow> entry list" where
  "explodeWaters s rnd r i [] = []"
| "explodeWaters s rnd r i (water # ws) =
     (case findByName ''O'' (childrenOf s water) of
        None \<Rightarrow> explodeWaters s rnd r (i + 1) ws
      | Some oxygen \<Rightarrow>
          (let dir = normalize (position (attrs oxygen));
               explodeDist = 35 / 10 + rnd r * (15 / 10);
               start = 5 / 10 + real i * (8 / 100)
           in [To (tweenTo (PositionOf water) (xyz (multiplyScalar dir explodeDist)) (14 / 10)
                     ''power3.out'') start,
               To (tweenTo (RotationOf water)
                     [(''x'', Absolute ((rnd (r + 1) - 5 / 10) * 2)),
                      (''y'', Absolute ((rnd (r + 2) - 5 / 10) * 2))] (14 / 10)
                     ''power2.out'') start]
              @ explodeWaters s rnd (r + 3) (i + 1) ws))"

definition stageDissolution :: "(nat \<Rightarrow> real) \<Rightarrow> stages \<Rightarrow> stages" where
  "stageDissolution rnd s =
     (let s1 = newTimeline s;
          s2 = setVisible (st_freeWater s1) False s1;
          s3 = restoreMaterials s2;
          shake = To \<lparr>tw_target = PositionOf (st_complex s3),
                      tw_vars = [(''x'', Relative (5 / 100))], tw_duration = 8 / 100,
                      tw_ease = Some ''none'', tw_repeat = 5, tw_yoyo = True,
                      tw_onUpdate = False\<rparr> 0;
          s4 = put (shake # explodeWaters s3 rnd 0 0 (st_waters s3)) s3
      in put [To \<lparr>tw_target = ObjectItself (st_bondsGroup s4),
                  tw_vars = [(''visible'', Flag True)], tw_duration = 0, tw_ease = None,
                  tw_repeat = 0, tw_yoyo = False, tw_onUpdate = False\<rparr> 0,
              Call HideBonds 1,
              To (tweenTo CameraPosition (xyz (Vector3 6 5 8)) (16 / 10) ''power2.inOut'')
                 (3 / 10)] s4)"

text \<open>Stage 2: the waters are first put far out, then tweened back.\<close>

fun scatterWaters :: "(nat \<Rightarrow> real) \<Rightarrow> nat \<Rightarrow> nat list \<Rightarrow> stages \<Rightarrow> stages" where
  "scatterWaters rnd r [] s = s"
| "scatterWaters rnd r (water # ws) s =
     (case findByName ''O'' (childrenOf s water) of
        None \<Rightarrow> scatterWaters rnd r ws s
      | Some oxygen \<Rightarrow>
          (let dir = normalize (position (attrs oxygen));
               s1 = setPosition water (multiplyScalar dir 5) s;
               s2 = setRotation water
                      (Vector3 ((rnd r - 5 / 10) * 3) ((rnd (r + 1) - 5 / 10) * 3)
                         ((rnd (r + 2) - 5 / 10) * 3)) s1
           in scatterWaters rnd (r + 3) ws s2))"

fun convergeWaters :: "stages \<Rightarrow> nat \<Rightarrow> nat list \<Rightarrow> entry list" where
  "convergeWaters s i [] = []"
| "convergeWaters s i (water # ws) =
     (let saved = (case savedPositions s water of Some p \<Rightarrow> p | None \<Rightarrow> Vector3 0 0 0)
      in [To (tweenTo (PositionOf water) (xyz saved) (16 / 10) ''power2.inOut'')
            (3 / 10 + real i * (15 / 100)),
          To (tweenTo (RotationOf water) (xyz (Vector3 0 0 0)) (12 / 10) ''power2.inOut'')
            (5 / 10 + real i * (15 / 100))]
         @ convergeWaters s (i + 1) ws)"

definition stageHydration :: "(nat \<Rightarrow> real) \<Rightarrow> stages \<Rightarrow> stages" where
  "stageHydration rnd s =
     (let s1 = newTimeline s;
          s2 = setVisible (st_freeWater s1) False s1;
          s3 = setVisible (st_complex s2) True s2;
          s4 = restoreMaterials s3;
          s5 = scatterWaters rnd 0 (st_waters s4) s4;
          s6 = setVisible (st_bondsGroup s5) False s5;
          s7 = put [To (tweenTo CameraPosition (xyz (Vector3 4 3 5)) 1 ''power2.inOut'') 0] s6;
          s8 = put (convergeWaters s7 0 (st_waters s7)) s7
      in put [Call ShowBonds (22 / 10)] s8)"

text \<open>
  Stage 3.  The traversal that resets the complex first; then the callbacks and tweens
  of the proton transfer.  \<^verbatim>\<open>_waters[0].children\<close> throws when there is no water.
\<close>

definition resetComplex :: "stages \<Rightarrow> stages" where
  "resetComplex s =
     fold (\<lambda>obj s'.
             let i = oid (attrs obj);
                 s1 = (if isMesh obj \<or> isGroup obj then
                         (case savedPositions s i of
                            Some saved \<Rightarrow> setPosition i saved s'
                          | None \<Rightarrow> s')
                       else s');
                 s2 = (if isGroup obj \<and> oname (attrs obj) = ''Water''
                       then setRotation i (Vector3 0 0 0) s1 else s1)
             in if isMesh obj then
                  (case savedMaterials s i of
                     Some m \<Rightarrow> assignMaterial i m s2
                   | None \<Rightarrow> s2)
                else s2)
          (complexObjects s) s"

definition stageHydrolysis :: "stages \<Rightarrow> js_error option \<times> stages" where
  "stageHydrolysis s =
     (let s1 = newTimeline s;
          s2 = resetComplex s1;
          s3 = setPosition (st_complex s2) (Vector3 0 0 0) s2;
          s4 = setVisible (st_bondsGroup s3) True s3
      in case st_waters s4 of
           [] \<Rightarrow> (Some (TypeError ''_waters[0] is undefined''), s4)
         | targetWater # _ \<Rightarrow>
             (case (findByName ''O'' (childrenOf s4 targetWater),
                    findByName ''H1'' (childrenOf s4 targetWater)) of
                (Some targetO, Some targetH) \<Rightarrow>
                  (let s5 = setVisible (st_freeWater s4) True s4;
                       s6 = setPosition (st_freeWater s5) (Vector3 (45 / 10) (3 / 10) (5 / 10)) s5;
                       glowMat = createElectronDensityVariant oxygenMaterial 0;
                       alMat = materialOf (st_scene s6) (st_al s6);
                       freeWaterOxygen =
                         map_option (\<lambda>obj. oid (attrs obj))
                           (findByName ''O_free'' (childrenOf s6 (st_freeWater s6)));
                       s7 = s6\<lparr>hWorldPos := Vector3 0 0 0, freeOPos := Vector3 0 0 0\<rparr>
                   in (None,
                       put
                         [To (tweenTo CameraPosition (xyz (Vector3 (35 / 10) (15 / 10) 3))
                                (15 / 10) ''power2.inOut'') 0,
                          To ((tweenTo ControlsTarget (xyz (Vector3 (15 / 10) 0 0)) (15 / 10)
                                 ''power2.inOut'')\<lparr>tw_onUpdate := True\<rparr>) 0,
                          Call (SetGlow (oid (attrs targetO)) glowMat) 1,
                          To (tweenTo (MaterialOf (Some glowMat))
                                [(''emissiveIntensity'', Absolute (8 / 10))] 2 ''power1.in'')
                             (12 / 10),
                          To (tweenTo (MaterialOf alMat)
                                [(''emissiveIntensity'', Absolute (3 / 10))] (15 / 10)
                                ''power1.in'') (15 / 10),
                          Call (DetachHydrogen (oid (attrs targetH))) (32 / 10),
                          Call (RecordFreeOxygenPosition freeWaterOxygen) (33 / 10),
                          To (tweenTo (PositionOf (oid (attrs targetH)))
                                [(''x'', FreeOxygenPlus 0 (5 / 10)),
                                 (''y'', FreeOxygenPlus 1 (4 / 10)),
                                 (''z'', FreeOxygenPlus 2 0)] (12 / 10) ''power2.in'')
                             (34 / 10),
                          Call LabelHydronium (48 / 10)] s7))
              | _ \<Rightarrow> (None, s4)))"

subsection \<open>goToStage\<close>

definition goToStage :: "(nat \<Rightarrow> real) \<Rightarrow> jsnum \<Rightarrow> stages \<Rightarrow> js_error option \<times> stages" where
  "goToStage rnd stage s =
     (let s1 = killActive s;
          s2 = updateDescription stage s1
      in if stage = Num 0 then (None, stageComplex s2)
         else if stage = Num 1 then (None, stageDissolution rnd s2)
         else if stage = Num 2 then (None, stageHydration rnd s2)
         else if stage = Num 3 then stageHydrolysis s2
         else (None, s2))"

subsection \<open>The callbacks of the timelines\<close>

text \<open>What each function passed to \<^verbatim>\<open>tl.call\<close> does when the timeline reaches it.\<close>

definition worldPositionIn :: "stages \<Rightarrow> nat \<Rightarrow> vec3 \<Rightarrow> vec3" where
  "worldPositionIn s i dflt =
     (case getWorldPosition (st_scene s) i of Some w \<Rightarrow> w | None \<Rightarrow> dflt)"

definition labelHydronium :: "stages \<Rightarrow> stages" where
  "labelHydronium s =
     (case findByName ''O_free'' (childrenOf s (st_freeWater s)) of
        None \<Rightarrow> s
      | Some freeO \<Rightarrow>
          (let tree1 = (case findByName ''label'' (children freeO) of
                          None \<Rightarrow> st_scene s
                        | Some oldLabel \<Rightarrow> remove_obj (oid (attrs oldLabel)) (st_scene s));
               label = freeLabel (''H'' @ sub3 @ ''O'' @ sup_plus) ''label-hydronium'' (st_nextId s)
           in s\<lparr>st_scene := add_child (oid (attrs freeO)) label tree1,
                allLabels := allLabels s @ [st_nextId s],
                st_nextId := st_nextId s + 1\<rparr>))"

definition runCallback :: "callback \<Rightarrow> stages \<Rightarrow> stages" where
  "runCallback c s =
     (case c of
        HideBonds \<Rightarrow> setVisible (st_bondsGroup s) False s
      | ShowBonds \<Rightarrow> setVisible (st_bondsGroup s) True s
      | SetGlow targetO glowMat \<Rightarrow> assignMaterial targetO (Some glowMat) s
      | DetachHydrogen targetH \<Rightarrow>
          s\<lparr>hWorldPos := worldPositionIn s targetH (hWorldPos s),
            st_scene := attach targetH (st_scene s)\<rparr>
      | RecordFreeOxygenPosition freeWaterOxygen \<Rightarrow>
          (case freeWaterOxygen of
             Some fo \<Rightarrow> s\<lparr>freeOPos := worldPositionIn s fo (freeOPos s)\<rparr>
           | None \<Rightarrow>
               (case getObject (st_scene s) (st_freeWater s) of
                  Some fw \<Rightarrow> s\<lparr>freeOPos := position (attrs fw)\<rparr>
                | None \<Rightarrow> s))
      | LabelHydronium \<Rightarrow> labelHydronium s)"

text \<open>
  A callback can fire only while its timeline has not been killed: \<open>pending s c\<close> holds
  when \<open>c\<close> is on the active timeline of \<open>s\<close>.
\<close>

definition pending :: "stages \<Rightarrow> callback \<Rightarrow> bool" where
  "pending s c =
     (case activeTimeline s of
        None \<Rightarrow> False
      | Some i \<Rightarrow> i < length (timelines s) \<and> \<not> killed (timelines s ! i) \<and>
                  c \<in> set (concat (map (\<lambda>e. case e of Call c' t \<Rightarrow> [c'] | To tw t \<Rightarrow> [])
                                     (entries (timelines s ! i)))))"

section \<open>Runs of the page and of the stage module\<close>

text \<open>
  The fields of the objects of a tree in traversal order, and those whose material is
  the highlight material.
\<close>

definition attrsOf :: "obj3d \<Rightarrow> attrs list" where
  "attrsOf tree = map attrs (traverse tree)"

definition highlighted :: "obj3d \<Rightarrow> attrs list" where
  "highlighted tree = filter (\<lambda>a. material a = Some highlightMaterial) (attrsOf tree)"

text \<open>Id, kind, name and material of the objects of a tree, in traversal order.\<close>

definition skeleton :: "obj3d \<Rightarrow> (nat \<times> kind \<times> string \<times> material option) list" where
  "skeleton tree = map (\<lambda>a. (oid a, okind a, oname a, material a)) (attrsOf tree)"

definition meshIds :: "obj3d \<Rightarrow> nat list" where
  "meshIds tree = map (\<lambda>obj. oid (attrs obj)) (candidates tree)"

text \<open>
  A page as the modules leave it when they have run: the ids of the objects of the scene
  are distinct, every mesh has a material and none the highlight material, nothing is
  selected, the stage is 0.
\<close>

definition initial :: "page \<Rightarrow> bool" where
  "initial s =
     (distinct (map oid (attrsOf (scene s))) \<and>
      list_all (\<lambda>a. (okind a = Mesh \<longrightarrow> material a \<noteq> None) \<and>
                     material a \<noteq> Some highlightMaterial) (attrsOf (scene s)) \<and>
      previousSelection s = None \<and> previousMaterial s = None \<and>
      currentStage s = Num 0)"

text \<open>
  What the two functions of the selection keep true: ids are distinct, every mesh has a
  material, and the highlight material is on no object when nothing is selected and
  else on the selected mesh at most, whose own material is remembered.
\<close>

definition withMaterial :: "nat \<Rightarrow> material option \<Rightarrow> attrs \<Rightarrow> attrs" where
  "withMaterial i m a = (if oid a = i then a\<lparr>material := m\<rparr> else a)"

definition selectionInv :: "page \<Rightarrow> bool" where
  "selectionInv s =
     (distinct (map oid (attrsOf (scene s))) \<and>
      list_all (\<lambda>a. okind a = Mesh \<longrightarrow> material a \<noteq> None) (attrsOf (scene s)) \<and>
      (case previousSelection s of
         None \<Rightarrow> previousMaterial s = None \<and> highlighted (scene s) = []
       | Some p \<Rightarrow>
           previousMaterial s \<noteq> None \<and> previousMaterial s \<noteq> Some highlightMaterial \<and>
           list_all (\<lambda>a. oid a = p) (highlighted (scene s))))"

text \<open>The handlers registered on a page, and the states that events lead to.\<close>

definition handlers :: "page \<Rightarrow> handler list" where
  "handlers s = initInteraction s @ map StageClick [0 ..< length (buttons s)]"

inductive reachable :: "page \<Rightarrow> bool" where
  start: "initial s \<Longrightarrow> reachable s"
| event: "reachable s \<Longrightarrow> h \<in> set (handlers s) \<Longrightarrow> reachable (snd (handle h raycast s))"

text \<open>
  The views of the page that the two groups of handlers work on, and what a run of a
  handler shows: the error it ends with, if any, and the view afterwards.
\<close>

definition stageView :: "page \<Rightarrow> jsnum \<times> stage_btn list \<times> string list" where
  "stageView s = (currentStage s, buttons s, console s)"

definition selectionView ::
  "page \<Rightarrow> obj3d \<times> nat option \<times> material option \<times> string set option \<times>
           string option \<times> string option \<times> string option \<times> string option" where
  "selectionView s =
     (scene s, previousSelection s, previousMaterial s, infoPanel s,
      infoTitle s, infoElement s, infoRole s, infoCharge s)"

text \<open>
  The stage module: its state after \<^verbatim>\<open>initStages\<close>, then calls of \<^verbatim>\<open>goToStage\<close>,
  callbacks of the live timeline firing, and frames in between, in which tweens and
  the orbit controls move objects, the camera and the controls target.
\<close>

inductive stagesReachable :: "stages \<Rightarrow> bool" where
  init: "stagesReachable (initStages scn cam ctl cplx alId ws bonds desc labels n)"
| goTo: "stagesReachable s \<Longrightarrow> stagesReachable (snd (goToStage rnd stage s))"
| fire: "stagesReachable s \<Longrightarrow> pending s c \<Longrightarrow> stagesReachable (runCallback c s)"
| frame: "stagesReachable s \<Longrightarrow>
          stagesReachable (s\<lparr>st_scene := tree, st_camera := cam, st_controls := ctl\<rparr>)"

text \<open>The timelines that have been created and not killed.\<close>

definition liveTimelines :: "stages \<Rightarrow> nat list" where
  "liveTimelines s = filter (\<lambda>i. \<not> killed (timelines s ! i)) [0 ..< length (timelines s)]"

definition isStage :: "jsnum \<Rightarrow> bool" where
  "isStage stage = (stage \<in> set [Num 0, Num 1, Num 2, Num 3])"

text \<open>The targets of the tweens of the timeline that \<^verbatim>\<open>_activeTimeline\<close> refers to.\<close>

definition activeTweens :: "stages \<Rightarrow> tween list" where
  "activeTweens s =
     (case activeTimeline s of
        None \<Rightarrow> []
      | Some i \<Rightarrow>
          if i < length (timelines s)
          then concat (map (\<lambda>e. case e of To tw t \<Rightarrow> [tw] | Call c t \<Rightarrow> [])
                         (entries (timelines s ! i)))
          else [])"

text \<open>
  The stage module started on the scene of main.js, with a description element that is
  still hidden.
\<close>

definition stagesStart :: stages where
  "stagesStart =
     (let m = buildMainScene
      in initStages (mainScene m) (Vector3 4 3 5) (Vector3 0 0 0)
           (oid (attrs (complex (mainComplex m))))
           (oid (attrs (al (mainComplex m))))
           (map (\<lambda>w. oid (attrs w)) (waters (mainComplex m)))
           (oid (attrs (mainBonds m)))
           (Some ([], {''hidden''})) [] (nextId m))"

text \<open>
  A document with the info panel (hidden), its four text elements, the close button and
  four stage buttons, the first of them active.
\<close>

definition stageButton :: "string \<Rightarrow> string \<Rightarrow> bool \<Rightarrow> stage_btn" where
  "stageButton stage label active =
     \<lparr>dataStage = Some stage,
      classList = (if active then {''stage-btn'', ''active''} else {''stage-btn''}),
      stageLabel = Some label\<rparr>"

definition examplePage :: page where
  "examplePage =
     initialPage (Some {''hidden''}) (Some []) (Some []) (Some []) (Some []) True
       [stageButton ''0'' ''Complex'' True, stageButton ''1'' ''Dissolution'' False,
        stageButton ''2'' ''Hydration'' False, stageButton ''3'' ''Hydrolysis'' False]"

text \<open>
  The same document without the info panel, and without the title element; a ray that
  meets the aluminium mesh only, at distance 1.
\<close>

definition pageWithoutPanel :: page where
  "pageWithoutPanel = examplePage\<lparr>infoPanel := None\<rparr>"

definition pageWithoutTitle :: page where
  "pageWithoutTitle = examplePage\<lparr>infoTitle := None\<rparr>"

definition rayAtAluminium :: "obj3d \<Rightarrow> real list" where
  "rayAtAluminium obj = (if oname (attrs obj) = ''Al'' then [1] else [])"


section \<open>Geometry of the complex\<close>

lemma water_counter: "snd (createWaterMolecule d n) = n + 4"
  by (simp add: createWaterMolecule_def Let_def)

lemma water_group_attrs:
  "attrs (fst (createWaterMolecule d n)) = (newObject Group n)\<lparr>oname := ''Water''\<rparr>"
  by (simp add: createWaterMolecule_def Let_def)

lemma water_children_kinds_names:
  "map (\<lambda>c. (okind (attrs c), oname (attrs c))) (children (fst (createWaterMolecule d n))) =
     [(Mesh, ''O''), (Mesh, ''H1''), (Mesh, ''H2'')]"
  by (simp add: createWaterMolecule_def Let_def createHydrogen_def newMesh_def newObject_def
      upt_rec digit_string.simps)



lemma buildComplex_waters:
  "waters (fst (buildComplex n)) =
     [fst (createWaterMolecule (Vector3 1 0 0) (n + 2)),
      fst (createWaterMolecule (Vector3 (- 1) 0 0) (n + 6)),
      fst (createWaterMolecule (Vector3 0 1 0) (n + 10)),
      fst (createWaterMolecule (Vector3 0 (- 1) 0) (n + 14)),
      fst (createWaterMolecule (Vector3 0 0 1) (n + 18)),
      fst (createWaterMolecule (Vector3 0 0 (- 1)) (n + 22))]"
  by (simp add: buildComplex_def split_def createAlCenter_def OCTA_DIRS_def water_counter
      add.commute)

lemma buildComplex_complex:
  "complex (fst (buildComplex n)) =
     Obj3D ((newObject Group n)\<lparr>oname := ''AlComplex''\<rparr>)
       (al (fst (buildComplex n)) # waters (fst (buildComplex n)))"
  by (simp add: buildComplex_def split_def Let_def)

lemma buildComplex_al: "al (fst (buildComplex n)) = fst (createAlCenter (n + 1))"
  by (simp add: buildComplex_def split_def Let_def)

lemma buildComplex_counter: "snd (buildComplex n) = n + 26"
  by (simp add: buildComplex_def split_def createAlCenter_def OCTA_DIRS_def water_counter)






text \<open>
  C2.  The group that \<open>createWaterMolecule\<close> returns has exactly three children: one
  mesh named O, then one mesh named H1 and one mesh named H2.  The six waters of
  \<open>buildComplex\<close> are such groups, and they are the children of the complex after the
  aluminium mesh.
\<close>

theorem water_one_oxygen_two_hydrogens:
  "map (\<lambda>c. (okind (attrs c), oname (attrs c)))
     (children (fst (createWaterMolecule direction n))) =
     [(Mesh, ''O''), (Mesh, ''H1''), (Mesh, ''H2'')] \<and>
   map (\<lambda>w. (okind (attrs w), map (\<lambda>c. (okind (attrs c), oname (attrs c))) (children w)))
     (waters (fst (buildComplex k))) =
     replicate 6 (Group, [(Mesh, ''O''), (Mesh, ''H1''), (Mesh, ''H2'')]) \<and>
   children (complex (fst (buildComplex k))) =
     al (fst (buildComplex k)) # waters (fst (buildComplex k))"
  by (simp add: buildComplex_waters water_children_kinds_names water_group_attrs
      newObject_def buildComplex_complex numeral_eq_Suc)


















section \<open>Objects of a tree and their fields\<close>

lemma attrsOf_update_obj:
  "attrsOf (update_obj i f t) = map (\<lambda>a. if oid a = i then f a else a) (attrsOf t)"
proof (induction t)
  case (Obj3D a cs)
  have IH: "\<And>c. c \<in> set cs \<Longrightarrow>
      map attrs (traverse (update_obj i f c)) =
      map (\<lambda>a. if oid a = i then f a else a) (map attrs (traverse c))"
    using Obj3D by (simp add: attrsOf_def)
  show ?case
    by (simp add: attrsOf_def map_concat o_def IH cong: map_cong)
qed

lemma attrsOf_setMaterial: "attrsOf (setMaterial i m t) = map (withMaterial i m) (attrsOf t)"
  by (simp add: setMaterial_def attrsOf_update_obj withMaterial_def)

lemma find_map_attrs: "map_option f (find (\<lambda>x. P (f x)) xs) = find P (map f xs)"
  by (induction xs) auto

lemma getObject_attrs: "map_option attrs (getObject t j) = find (\<lambda>a. oid a = j) (attrsOf t)"
  using find_map_attrs[where f = attrs and P = "\<lambda>a. oid a = j" and xs = "traverse t"]
  by (simp add: getObject_def attrsOf_def)

lemma materialOf_find:
  "materialOf t j =
     (case find (\<lambda>a. oid a = j) (attrsOf t) of None \<Rightarrow> None | Some a \<Rightarrow> material a)"
  using getObject_attrs[of t j] by (auto simp: materialOf_def split: option.splits)

lemma find_withMaterial:
  "find (\<lambda>a. oid a = j) (map (withMaterial i m) as) =
   map_option (withMaterial i m) (find (\<lambda>a. oid a = j) as)"
  by (induction as) (auto simp: withMaterial_def)

lemma meshIds_attrs: "meshIds t = map oid (filter (\<lambda>a. okind a = Mesh) (attrsOf t))"
  by (simp add: meshIds_def candidates_def attrsOf_def filter_map o_def isMesh_def[abs_def])

lemma find_oid_in:
  "j \<in> set (map oid as) \<Longrightarrow>
   \<exists>a. find (\<lambda>a. oid a = j) as = Some a \<and> oid a = j \<and> a \<in> set as"
  by (induction as) auto

lemma materialOf_setMaterial_same:
  "j \<in> set (map oid (attrsOf t)) \<Longrightarrow> materialOf (setMaterial j m t) j = m"
  using find_oid_in[of j "attrsOf t"]
  by (auto simp: materialOf_find attrsOf_setMaterial find_withMaterial withMaterial_def)

lemma materialOf_setMaterial_other:
  "j \<noteq> i \<Longrightarrow> materialOf (setMaterial i m t) j = materialOf t j"
  by (auto simp: materialOf_find attrsOf_setMaterial find_withMaterial withMaterial_def
      split: option.splits dest: find_Some_iff[THEN iffD1])

lemma oid_withMaterial [simp]: "oid (withMaterial i m a) = oid a"
  by (simp add: withMaterial_def)

lemma okind_withMaterial [simp]: "okind (withMaterial i m a) = okind a"
  by (simp add: withMaterial_def)

lemma ids_setMaterial: "map oid (attrsOf (setMaterial i m t)) = map oid (attrsOf t)"
  by (simp add: attrsOf_setMaterial o_def)

lemma meshIds_setMaterial: "meshIds (setMaterial i m t) = meshIds t"
  by (simp add: meshIds_attrs attrsOf_setMaterial filter_map o_def)

section \<open>Selection: what the two functions keep true\<close>


lemma populate_frame:
  "scene (snd (populate cl a s)) = scene s \<and>
   previousSelection (snd (populate cl a s)) = previousSelection s \<and>
   previousMaterial (snd (populate cl a s)) = previousMaterial s \<and>
   stageView (snd (populate cl a s)) = stageView s \<and>
   camera_position (snd (populate cl a s)) = camera_position s \<and>
   controls_target (snd (populate cl a s)) = controls_target s \<and>
   infoClose (snd (populate cl a s)) = infoClose s"
  by (simp add: populate_def Let_def stageView_def)

lemma restorePrevious_scene:
  "scene (restorePrevious s) =
     (case (previousSelection s, previousMaterial s) of
        (Some p, Some m) \<Rightarrow> setMaterial p (Some m) (scene s) | _ \<Rightarrow> scene s)"
  by (simp add: restorePrevious_def split: option.splits)

lemma restorePrevious_frame:
  "previousSelection (restorePrevious s) = previousSelection s \<and>
   previousMaterial (restorePrevious s) = previousMaterial s \<and>
   infoPanel (restorePrevious s) = infoPanel s \<and> infoTitle (restorePrevious s) = infoTitle s \<and>
   infoElement (restorePrevious s) = infoElement s \<and> infoRole (restorePrevious s) = infoRole s \<and>
   infoCharge (restorePrevious s) = infoCharge s \<and> stageView (restorePrevious s) = stageView s"
  by (simp add: restorePrevious_def stageView_def split: option.splits)

lemma selectAtom_core:
  "scene (snd (selectAtom m s)) = setMaterial m (Some highlightMaterial) (scene (restorePrevious s)) \<and>
   previousSelection (snd (selectAtom m s)) = Some m \<and>
   previousMaterial (snd (selectAtom m s)) = materialOf (scene (restorePrevious s)) m"
  by (simp add: selectAtom_def storeAndSwap_def Let_def populate_frame split: option.splits)

lemma deselectAtom_core:
  "scene (deselectAtom s) =
     (case (previousSelection s, previousMaterial s) of
        (Some p, Some m) \<Rightarrow> setMaterial p (Some m) (scene s) | _ \<Rightarrow> scene s) \<and>
   previousSelection (deselectAtom s) =
     (case (previousSelection s, previousMaterial s) of
        (Some p, Some m) \<Rightarrow> None | _ \<Rightarrow> previousSelection s) \<and>
   previousMaterial (deselectAtom s) =
     (case (previousSelection s, previousMaterial s) of
        (Some p, Some m) \<Rightarrow> None | _ \<Rightarrow> previousMaterial s)"
  by (simp add: deselectAtom_def Let_def split: option.splits)

lemma highlighted_attrs: "highlighted t = filter (\<lambda>a. material a = Some highlightMaterial) (attrsOf t)"
  by (simp add: highlighted_def)

lemma restore_no_highlight:
  assumes "\<forall>a\<in>set as. material a = Some highlightMaterial \<longrightarrow> oid a = p"
    and "x \<noteq> highlightMaterial"
  shows "\<forall>a\<in>set (map (withMaterial p (Some x)) as). material a \<noteq> Some highlightMaterial"
  using assms by (auto simp: withMaterial_def)

lemma highlight_only_at:
  assumes "\<forall>a\<in>set as. material a \<noteq> Some highlightMaterial"
  shows "\<forall>a\<in>set (map (withMaterial m (Some highlightMaterial)) as).
           material a = Some highlightMaterial \<longrightarrow> oid a = m"
  using assms by (auto simp: withMaterial_def)

lemma mesh_materials_kept:
  assumes "\<forall>a\<in>set as. okind a = Mesh \<longrightarrow> material a \<noteq> None"
  shows "\<forall>a\<in>set (map (withMaterial i (Some x)) as). okind a = Mesh \<longrightarrow> material a \<noteq> None"
  using assms by (auto simp: withMaterial_def)

lemma mesh_material_found:
  assumes "m \<in> set (map oid (filter (\<lambda>a. okind a = Mesh) as))" "distinct (map oid as)"
    "\<forall>a\<in>set as. okind a = Mesh \<longrightarrow> material a \<noteq> None"
  shows "\<exists>a. find (\<lambda>a. oid a = m) as = Some a \<and> a \<in> set as \<and> okind a = Mesh \<and> material a \<noteq> None"
proof -
  from assms(1) obtain b where b: "b \<in> set as" "okind b = Mesh" "oid b = m" by auto
  then have "m \<in> set (map oid as)" by auto
  from find_oid_in[OF this] obtain a where a: "find (\<lambda>a. oid a = m) as = Some a" "oid a = m" "a \<in> set as"
    by auto
  from assms(2) a(2,3) b(1,3) have "a = b" by (metis distinct_map inj_onD)
  with a b assms(3) show ?thesis by auto
qed

lemma selectionInv_iff:
  "selectionInv s \<longleftrightarrow>
     distinct (map oid (attrsOf (scene s))) \<and>
     (\<forall>a\<in>set (attrsOf (scene s)). okind a = Mesh \<longrightarrow> material a \<noteq> None) \<and>
     (case previousSelection s of
        None \<Rightarrow> previousMaterial s = None \<and>
                 (\<forall>a\<in>set (attrsOf (scene s)). material a \<noteq> Some highlightMaterial)
      | Some p \<Rightarrow> previousMaterial s \<noteq> None \<and> previousMaterial s \<noteq> Some highlightMaterial \<and>
                 (\<forall>a\<in>set (attrsOf (scene s)). material a = Some highlightMaterial \<longrightarrow> oid a = p))"
  by (auto simp: selectionInv_def highlighted_def list_all_iff filter_empty_conv split: option.splits)

lemma restorePrevious_clean:
  assumes "selectionInv s"
  shows "distinct (map oid (attrsOf (scene (restorePrevious s)))) \<and>
     (\<forall>a\<in>set (attrsOf (scene (restorePrevious s))). okind a = Mesh \<longrightarrow> material a \<noteq> None) \<and>
     (\<forall>a\<in>set (attrsOf (scene (restorePrevious s))). material a \<noteq> Some highlightMaterial) \<and>
     meshIds (scene (restorePrevious s)) = meshIds (scene s)"
proof (cases "previousSelection s")
  case None
  with assms show ?thesis
    by (simp add: selectionInv_iff restorePrevious_scene)
next
  case (Some p)
  with assms obtain x where x: "previousMaterial s = Some x" "x \<noteq> highlightMaterial"
    by (auto simp: selectionInv_iff)
  have sc: "attrsOf (scene (restorePrevious s)) = map (withMaterial p (Some x)) (attrsOf (scene s))"
    by (simp add: restorePrevious_scene Some x attrsOf_setMaterial)
  from assms Some have h: "\<forall>a\<in>set (attrsOf (scene s)). material a = Some highlightMaterial \<longrightarrow> oid a = p"
    and d: "distinct (map oid (attrsOf (scene s)))"
    and mm: "\<forall>a\<in>set (attrsOf (scene s)). okind a = Mesh \<longrightarrow> material a \<noteq> None"
    by (simp_all add: selectionInv_iff)
  show ?thesis
    unfolding sc
    using restore_no_highlight[OF h x(2)] mesh_materials_kept[OF mm, of p x] d
    by (simp add: meshIds_attrs sc filter_map o_def)
qed

lemma selectAtom_inv:
  assumes "selectionInv s" "m \<in> set (meshIds (scene s))"
  shows "selectionInv (snd (selectAtom m s))"
proof -
  let ?as = "attrsOf (scene (restorePrevious s))"
  from restorePrevious_clean[OF assms(1)]
  have d: "distinct (map oid ?as)"
    and mm: "\<forall>a\<in>set ?as. okind a = Mesh \<longrightarrow> material a \<noteq> None"
    and nh: "\<forall>a\<in>set ?as. material a \<noteq> Some highlightMaterial"
    and mi: "meshIds (scene (restorePrevious s)) = meshIds (scene s)" by auto
  from assms(2) mi have "m \<in> set (map oid (filter (\<lambda>a. okind a = Mesh) ?as))"
    by (simp add: meshIds_attrs)
  from mesh_material_found[OF this d mm] nh
  have pm: "materialOf (scene (restorePrevious s)) m \<noteq> None"
     "materialOf (scene (restorePrevious s)) m \<noteq> Some highlightMaterial"
    by (auto simp: materialOf_find)
  have sc: "attrsOf (scene (snd (selectAtom m s))) = map (withMaterial m (Some highlightMaterial)) ?as"
    by (simp add: selectAtom_core attrsOf_setMaterial)
  show ?thesis
    unfolding selectionInv_iff sc
    using highlight_only_at[OF nh, of m] mesh_materials_kept[OF mm, of m highlightMaterial] d pm
    by (simp add: selectAtom_core o_def)
qed

lemma deselectAtom_inv:
  assumes "selectionInv s"
  shows "selectionInv (deselectAtom s) \<and> previousSelection (deselectAtom s) = None \<and>
         previousMaterial (deselectAtom s) = None \<and> highlighted (scene (deselectAtom s)) = []"
proof (cases "previousSelection s")
  case None
  with assms show ?thesis
    by (auto simp: selectionInv_iff deselectAtom_core highlighted_def filter_empty_conv)
next
  case (Some p)
  with assms obtain x where x: "previousMaterial s = Some x" "x \<noteq> highlightMaterial"
    by (auto simp: selectionInv_iff)
  have sc: "attrsOf (scene (deselectAtom s)) = map (withMaterial p (Some x)) (attrsOf (scene s))"
    by (simp add: deselectAtom_core Some x attrsOf_setMaterial)
  from assms Some have h: "\<forall>a\<in>set (attrsOf (scene s)). material a = Some highlightMaterial \<longrightarrow> oid a = p"
    and d: "distinct (map oid (attrsOf (scene s)))"
    and mm: "\<forall>a\<in>set (attrsOf (scene s)). okind a = Mesh \<longrightarrow> material a \<noteq> None"
    by (simp_all add: selectionInv_iff)
  show ?thesis
    unfolding selectionInv_iff highlighted_def sc
    using restore_no_highlight[OF h x(2)] mesh_materials_kept[OF mm, of p x] d
    by (simp add: o_def deselectAtom_core Some x filter_empty_conv)
qed

section \<open>Handlers of the page keep the selection consistent\<close>


lemma intersect_head:
  assumes "intersectObjects rc objs = h # hs"
  shows "snd h \<in> set (map (\<lambda>obj. oid (attrs obj)) objs) \<and> (\<forall>h'\<in>set (h # hs). fst h \<le> fst h')"
proof -
  let ?xs = "concat (map (\<lambda>obj. map (\<lambda>d. (d, oid (attrs obj))) (rc obj)) objs)"
  have s: "sort_key fst ?xs = h # hs" using assms by (simp add: intersectObjects_def)
  have "h \<in> set (sort_key fst ?xs)" by (simp add: s)
  then have "h \<in> set ?xs" by simp
  then have 1: "snd h \<in> set (map (\<lambda>obj. oid (attrs obj)) objs)" by auto
  have "sorted (map fst (sort_key fst ?xs))" by (rule sorted_sort_key)
  then have "\<forall>h'\<in>set hs. fst h \<le> fst h'" by (simp add: s)
  with 1 show ?thesis by simp
qed

lemma pointerdown_cases:
  "pointerdown rc s =
     (case intersectObjects rc (candidates (scene s)) of
        [] \<Rightarrow> (None, deselectAtom s)
      | h # hs \<Rightarrow> selectAtom (snd h) s)"
  by (simp add: pointerdown_def Let_def split: list.splits)

lemma pointerdown_inv:
  assumes "selectionInv s"
  shows "selectionInv (snd (pointerdown rc s))"
proof (cases "intersectObjects rc (candidates (scene s))")
  case Nil
  then show ?thesis using deselectAtom_inv[OF assms] by (simp add: pointerdown_cases)
next
  case (Cons h hs)
  from intersect_head[OF Cons] have "snd h \<in> set (meshIds (scene s))"
    by (simp add: meshIds_def)
  from selectAtom_inv[OF assms this] Cons show ?thesis by (simp add: pointerdown_cases)
qed

lemma stageClick_frame:
  "scene (snd (stageClick k s)) = scene s \<and>
   previousSelection (snd (stageClick k s)) = previousSelection s \<and>
   previousMaterial (snd (stageClick k s)) = previousMaterial s \<and>
   selectionView (snd (stageClick k s)) = selectionView s \<and>
   camera_position (snd (stageClick k s)) = camera_position s \<and>
   controls_target (snd (stageClick k s)) = controls_target s \<and>
   infoClose (snd (stageClick k s)) = infoClose s"
  by (simp add: stageClick_def Let_def selectionView_def split: option.splits)

lemma handle_inv:
  assumes "selectionInv s"
  shows "selectionInv (snd (handle h rc s))"
proof (cases h)
  case PointerDown
  then show ?thesis using pointerdown_inv[OF assms] by (simp add: handle_def)
next
  case CloseClick
  then show ?thesis using deselectAtom_inv[OF assms] by (simp add: handle_def closeClick_def)
next
  case (StageClick k)
  then show ?thesis using assms stageClick_frame[of k s]
    by (auto simp: handle_def selectionInv_def split: option.splits)
qed

lemma initial_inv: "initial s \<Longrightarrow> selectionInv s"
  by (auto simp: initial_def selectionInv_def highlighted_def list_all_iff filter_empty_conv)

lemma reachable_inv: "reachable s \<Longrightarrow> selectionInv s"
  by (induction rule: reachable.induct) (simp_all add: initial_inv handle_inv)

lemma at_most_one_highlighted:
  assumes "selectionInv s"
  shows "length (highlighted (scene s)) \<le> 1"
proof (cases "previousSelection s")
  case None
  with assms show ?thesis by (simp add: selectionInv_def)
next
  case (Some p)
  with assms have d: "distinct (map oid (attrsOf (scene s)))"
    and h: "\<forall>a\<in>set (highlighted (scene s)). oid a = p"
    by (simp_all add: selectionInv_def list_all_iff)
  have "distinct (map oid (highlighted (scene s)))"
    unfolding highlighted_def using d by (rule distinct_map_filter)
  moreover have "set (map oid (highlighted (scene s))) \<subseteq> {p}" using h by auto
  ultimately have "length (map oid (highlighted (scene s))) \<le> card {p}"
    by (metis distinct_card card_mono finite.emptyI finite.insertI)
  then show ?thesis by simp
qed

section \<open>The scene of main.js\<close>


lemma skeleton_Obj3D:
  "skeleton (Obj3D a cs) = (oid a, okind a, oname a, material a) # concat (map skeleton cs)"
  by (simp add: skeleton_def[abs_def] attrsOf_def[abs_def] map_concat o_def)

lemma skeleton_water:
  "skeleton (fst (createWaterMolecule d n)) =
     [(n, Group, ''Water'', None), (n + 1, Mesh, ''O'', Some (Clone oxygenMaterial)),
      (n + 2, Mesh, ''H1'', Some (Clone hydrogenMaterial)),
      (n + 3, Mesh, ''H2'', Some (Clone hydrogenMaterial))]"
  by (simp add: skeleton_def attrsOf_def createWaterMolecule_def Let_def createHydrogen_def
      newMesh_def newObject_def upt_rec digit_string.simps)

lemma skeleton_waterBonds:
  "concat (map skeleton (fst (waterBonds tree alPos (fst (createWaterMolecule d n)) k))) =
    [(k, Line, ''CoordBond'', Some (Clone coordinationBondMaterial)),
     (k + 1, Line, ''CovalentBond'', Some (Clone covalentBondMaterial)),
     (k + 2, Line, ''CovalentBond'', Some (Clone covalentBondMaterial))] \<and>
   snd (waterBonds tree alPos (fst (createWaterMolecule d n)) k) = k + 3"
  by (simp add: waterBonds_def findByName_def createWaterMolecule_def Let_def createHydrogen_def
      newMesh_def newObject_def upt_rec digit_string.simps startsWith_def split_def
      createDashedBond_def createSolidBond_def skeleton_Obj3D)

lemma skeleton_buildBonds:
  "skeleton (fst (buildBonds tree alMesh (waters (fst (buildComplex 6))) 32)) =
     (32, Group, ''Bonds'', None) #
     concat (map (\<lambda>k. [(k, Line, ''CoordBond'', Some (Clone coordinationBondMaterial)),
                        (k + 1, Line, ''CovalentBond'', Some (Clone covalentBondMaterial)),
                        (k + 2, Line, ''CovalentBond'', Some (Clone covalentBondMaterial))])
               [33, 36, 39, 42, 45, 48]) \<and>
   snd (buildBonds tree alMesh (waters (fst (buildComplex 6))) 32) = 51"
  by (simp add: buildBonds_def buildComplex_waters Let_def split_def skeleton_Obj3D
      skeleton_waterBonds newObject_def)

lemma mainScene_eq:
  "mainScene buildMainScene =
     Obj3D (newObject SceneRoot 0)
       [newLight origin 2, newLight (Vector3 5 8 4) 3, newLight (Vector3 (- 4) 2 (- 3)) 4,
        newLight (Vector3 0 (- 4) (- 5)) 5, complex (fst (buildComplex 6)),
        mainBonds buildMainScene]"
  by (simp add: buildMainScene_def Let_def split_def)

lemma mainBonds_eq:
  "\<exists>tree. mainBonds buildMainScene =
      fst (buildBonds tree (al (fst (buildComplex 6))) (waters (fst (buildComplex 6))) 32)"
  by (auto simp: buildMainScene_def Let_def split_def buildComplex_counter)

lemma nextId_main: "nextId buildMainScene = 51"
  using skeleton_buildBonds
  by (simp add: buildMainScene_def Let_def split_def buildComplex_counter)

lemma skeleton_complex:
  "skeleton (complex (fst (buildComplex 6))) =
     (6, Group, ''AlComplex'', None) # (7, Mesh, ''Al'', Some aluminumMaterial) #
     concat (map (\<lambda>n. [(n, Group, ''Water'', None), (n + 1, Mesh, ''O'', Some (Clone oxygenMaterial)),
      (n + 2, Mesh, ''H1'', Some (Clone hydrogenMaterial)),
      (n + 3, Mesh, ''H2'', Some (Clone hydrogenMaterial))]) [8, 12, 16, 20, 24, 28])"
  by (simp add: buildComplex_complex buildComplex_al buildComplex_waters skeleton_Obj3D
      skeleton_water createAlCenter_def newMesh_def newObject_def)

lemma skeleton_mainScene:
  "skeleton (mainScene buildMainScene) =
     (0, SceneRoot, [], None) # (2, Light, [], None) # (3, Light, [], None) #
     (4, Light, [], None) # (5, Light, [], None) #
     skeleton (complex (fst (buildComplex 6))) @
     (32, Group, ''Bonds'', None) #
     concat (map (\<lambda>k. [(k, Line, ''CoordBond'', Some (Clone coordinationBondMaterial)),
                        (k + 1, Line, ''CovalentBond'', Some (Clone covalentBondMaterial)),
                        (k + 2, Line, ''CovalentBond'', Some (Clone covalentBondMaterial))])
               [33, 36, 39, 42, 45, 48])"
proof -
  obtain tree where "mainBonds buildMainScene =
      fst (buildBonds tree (al (fst (buildComplex 6))) (waters (fst (buildComplex 6))) 32)"
    using mainBonds_eq by blast
  then show ?thesis
    by (simp add: mainScene_eq skeleton_Obj3D newLight_def newObject_def skeleton_buildBonds)
qed

lemma initial_skeleton:
  "initial s \<longleftrightarrow>
     distinct (map fst (skeleton (scene s))) \<and>
     list_all (\<lambda>(i, k, n, m). (k = Mesh \<longrightarrow> m \<noteq> None) \<and> m \<noteq> Some highlightMaterial)
       (skeleton (scene s)) \<and>
     previousSelection s = None \<and> previousMaterial s = None \<and> currentStage s = Num 0"
  by (simp add: initial_def skeleton_def o_def list_all_iff)

lemma examplePage_fields:
  "scene examplePage = mainScene buildMainScene"
  "previousSelection examplePage = None" "previousMaterial examplePage = None"
  "currentStage examplePage = Num 0"
  "infoPanel examplePage = Some {''hidden''}" "infoTitle examplePage = Some []"
  "infoElement examplePage = Some []" "infoRole examplePage = Some []"
  "infoCharge examplePage = Some []" "infoClose examplePage = True"
  "console examplePage = []"
  "buttons examplePage =
     [stageButton ''0'' ''Complex'' True, stageButton ''1'' ''Dissolution'' False,
      stageButton ''2'' ''Hydration'' False, stageButton ''3'' ''Hydrolysis'' False]"
  by (simp_all add: examplePage_def initialPage_def)

lemma initial_examplePage: "initial examplePage"
  by (simp add: initial_skeleton examplePage_fields skeleton_mainScene skeleton_complex)

section \<open>What selecting and deselecting do\<close>

lemma meshIds_skeleton:
  "meshIds t = map fst (filter (\<lambda>(i, k, n, m). k = Mesh) (skeleton t))"
  by (simp add: meshIds_attrs skeleton_def filter_map o_def)

lemma materialOf_skeleton:
  "materialOf t j =
     (case find (\<lambda>e. fst e = j) (skeleton t) of None \<Rightarrow> None | Some (i, k, n, m) \<Rightarrow> m)"
  using find_map_attrs[where f = "\<lambda>a. (oid a, okind a, oname a, material a)"
      and P = "\<lambda>e. fst e = j" and xs = "attrsOf t", symmetric]
  by (simp add: materialOf_find skeleton_def split: option.splits)

lemma intersect_by_name:
  "intersectObjects (\<lambda>obj. f (oname (attrs obj))) (candidates t) =
     sort_key fst (concat (map (\<lambda>(i, k, n, m). map (\<lambda>d. (d, i)) (f n))
        (filter (\<lambda>(i, k, n, m). k = Mesh) (skeleton t))))"
  by (simp add: intersectObjects_def candidates_def skeleton_def attrsOf_def filter_map o_def
      isMesh_def[abs_def])

lemma concat_map_Nil: "concat (map (\<lambda>x. []) xs) = []"
  by (induction xs) simp_all

lemma aluminium_in_example:
  "7 \<in> set (meshIds (scene examplePage))"
  "materialOf (scene examplePage) 7 = Some aluminumMaterial"
  "getObject (scene examplePage) 7 = Some (fst (createAlCenter 7))"
  "intersectObjects rayAtAluminium (candidates (scene examplePage)) = [(1, 7)]"
  "intersectObjects (\<lambda>obj. []) (candidates (scene examplePage)) = []"
     apply (simp add: meshIds_skeleton examplePage_fields skeleton_mainScene skeleton_complex)
    apply (simp add: materialOf_skeleton examplePage_fields skeleton_mainScene skeleton_complex)
   apply (simp add: getObject_def examplePage_fields mainScene_eq newLight_def newObject_def
      buildComplex_complex buildComplex_al createAlCenter_def newMesh_def)
  using intersect_by_name[of "\<lambda>n. if n = ''Al'' then [1] else []" "scene examplePage"]
   apply (simp add: rayAtAluminium_def[abs_def] examplePage_fields skeleton_mainScene skeleton_complex)
  apply (simp add: intersectObjects_def concat_map_Nil)
  done

lemma reachable_examplePage: "reachable examplePage"
  by (rule reachable.start) (rule initial_examplePage)

lemma populate_complete:
  assumes "infoTitle s \<noteq> None" "infoElement s \<noteq> None" "infoRole s \<noteq> None" "infoCharge s \<noteq> None"
  shows "populate cl a s =
     (None, s\<lparr>infoTitle := Some (or_dash (Some (oname a))),
              infoElement := Some (or_dash (element (userData a))),
              infoRole := Some (or_dash (role (userData a))),
              infoCharge := Some (or_dash (charge (userData a))),
              infoPanel := Some (cl - {''hidden''})\<rparr>)"
  using assms by (simp add: populate_def Let_def)

lemma getObject_setMaterial:
  "map_option attrs (getObject (setMaterial i x t) j) =
   map_option (withMaterial i x) (map_option attrs (getObject t j))"
  by (simp add: getObject_attrs attrsOf_setMaterial find_withMaterial)

lemma getObject_highlight:
  assumes "getObject t m = Some obj"
  shows "\<exists>obj'. getObject (setMaterial i x t) m = Some obj' \<and>
          oname (attrs obj') = oname (attrs obj) \<and> userData (attrs obj') = userData (attrs obj)"
proof -
  from getObject_setMaterial[of i x t m] assms
  have "map_option attrs (getObject (setMaterial i x t) m) = Some (withMaterial i x (attrs obj))"
    by simp
  then obtain obj' where "getObject (setMaterial i x t) m = Some obj'"
    "attrs obj' = withMaterial i x (attrs obj)" by auto
  then show ?thesis by (auto simp: withMaterial_def)
qed

lemma getObject_restorePrevious:
  assumes "getObject (scene s) m = Some obj"
  shows "\<exists>obj'. getObject (scene (restorePrevious s)) m = Some obj' \<and>
          oname (attrs obj') = oname (attrs obj) \<and> userData (attrs obj') = userData (attrs obj)"
proof (cases "\<exists>p x. previousSelection s = Some p \<and> previousMaterial s = Some x")
  case True
  then obtain p x where "previousSelection s = Some p" "previousMaterial s = Some x" by blast
  then have "scene (restorePrevious s) = setMaterial p (Some x) (scene s)"
    by (simp add: restorePrevious_scene)
  with getObject_highlight[OF assms, of p "Some x"] show ?thesis by simp
next
  case False
  then have "scene (restorePrevious s) = scene s"
    by (auto simp: restorePrevious_scene split: option.splits)
  with assms show ?thesis by simp
qed

lemma storeAndSwap_fields:
  "scene (storeAndSwap m s) = setMaterial m (Some highlightMaterial) (scene (restorePrevious s))"
  "previousSelection (storeAndSwap m s) = Some m"
  "previousMaterial (storeAndSwap m s) = materialOf (scene (restorePrevious s)) m"
  "infoPanel (storeAndSwap m s) = infoPanel s" "infoTitle (storeAndSwap m s) = infoTitle s"
  "infoElement (storeAndSwap m s) = infoElement s" "infoRole (storeAndSwap m s) = infoRole s"
  "infoCharge (storeAndSwap m s) = infoCharge s" "stageView (storeAndSwap m s) = stageView s"
  "infoClose (storeAndSwap m s) = infoClose s"
  "camera_position (storeAndSwap m s) = camera_position s"
  "controls_target (storeAndSwap m s) = controls_target s"
  by (simp_all add: storeAndSwap_def Let_def restorePrevious_frame stageView_def
      restorePrevious_def split: option.splits)

lemma selectAtom_panel:
  assumes "getObject (scene s) m = Some obj" "infoPanel s = Some cl"
    "infoTitle s \<noteq> None" "infoElement s \<noteq> None" "infoRole s \<noteq> None" "infoCharge s \<noteq> None"
  shows "fst (selectAtom m s) = None \<and>
     infoPanel (snd (selectAtom m s)) = Some (cl - {''hidden''}) \<and>
     infoTitle (snd (selectAtom m s)) = Some (or_dash (Some (oname (attrs obj)))) \<and>
     infoElement (snd (selectAtom m s)) = Some (or_dash (element (userData (attrs obj)))) \<and>
     infoRole (snd (selectAtom m s)) = Some (or_dash (role (userData (attrs obj)))) \<and>
     infoCharge (snd (selectAtom m s)) = Some (or_dash (charge (userData (attrs obj))))"
proof -
  from getObject_restorePrevious[OF assms(1)] obtain o1 where
    o1: "getObject (scene (restorePrevious s)) m = Some o1"
      "oname (attrs o1) = oname (attrs obj)" "userData (attrs o1) = userData (attrs obj)" by blast
  from getObject_highlight[OF o1(1), of m "Some highlightMaterial"] obtain o2 where
    o2: "getObject (setMaterial m (Some highlightMaterial) (scene (restorePrevious s))) m = Some o2"
      "oname (attrs o2) = oname (attrs o1)" "userData (attrs o2) = userData (attrs o1)" by blast
  show ?thesis
    using assms(2-) o1 o2
    by (simp add: selectAtom_def Let_def storeAndSwap_fields populate_complete)
qed

lemma selectAtom_no_panel:
  assumes "infoPanel s = None"
  shows "fst (selectAtom m s) = None \<and> infoPanel (snd (selectAtom m s)) = None \<and>
     infoTitle (snd (selectAtom m s)) = infoTitle s \<and>
     infoElement (snd (selectAtom m s)) = infoElement s \<and>
     infoRole (snd (selectAtom m s)) = infoRole s \<and>
     infoCharge (snd (selectAtom m s)) = infoCharge s"
  using assms by (simp add: selectAtom_def Let_def storeAndSwap_fields split: option.splits)

lemma selectAtom_throws:
  assumes "m \<in> set (map oid (attrsOf (scene s)))" "infoPanel s = Some cl" "infoTitle s = None"
  shows "fst (selectAtom m s) = Some (TypeError ''infoTitle is null'') \<and>
         infoPanel (snd (selectAtom m s)) = Some cl"
proof -
  from find_oid_in[OF assms(1)] getObject_attrs[of "scene s" m]
  obtain obj where "getObject (scene s) m = Some obj" by (cases "getObject (scene s) m") auto
  from getObject_restorePrevious[OF this] obtain o1 where
    o1: "getObject (scene (restorePrevious s)) m = Some o1" by blast
  from getObject_highlight[OF o1(1), of m "Some highlightMaterial"] obtain o2 where
    o2: "getObject (setMaterial m (Some highlightMaterial) (scene (restorePrevious s))) m = Some o2"
    by blast
  show ?thesis
    using assms(2-) o2
    by (simp add: selectAtom_def Let_def storeAndSwap_fields populate_def)
qed

lemma deselectAtom_panel:
  "infoPanel (deselectAtom s) = map_option (insert ''hidden'') (infoPanel s) \<and>
   infoTitle (deselectAtom s) = infoTitle s \<and> infoElement (deselectAtom s) = infoElement s \<and>
   infoRole (deselectAtom s) = infoRole s \<and> infoCharge (deselectAtom s) = infoCharge s \<and>
   stageView (deselectAtom s) = stageView s \<and> infoClose (deselectAtom s) = infoClose s \<and>
   camera_position (deselectAtom s) = camera_position s \<and>
   controls_target (deselectAtom s) = controls_target s"
  by (simp add: deselectAtom_def Let_def stageView_def split: option.splits)

lemma selectAtom_highlights:
  assumes "selectionInv s" "m \<in> set (meshIds (scene s))"
  shows "materialOf (scene (snd (selectAtom m s))) m = Some highlightMaterial \<and>
         previousSelection (snd (selectAtom m s)) = Some m \<and>
         list_all (\<lambda>a. oid a = m) (highlighted (scene (snd (selectAtom m s))))"
proof -
  from restorePrevious_clean[OF assms(1)] assms(2)
  have "m \<in> set (meshIds (scene (restorePrevious s)))" by simp
  then have "m \<in> set (map oid (attrsOf (scene (restorePrevious s))))"
    by (auto simp: meshIds_attrs)
  then have "materialOf (scene (snd (selectAtom m s))) m = Some highlightMaterial"
    by (simp add: selectAtom_core materialOf_setMaterial_same)
  moreover from selectAtom_inv[OF assms]
  have "list_all (\<lambda>a. oid a = m) (highlighted (scene (snd (selectAtom m s))))"
    by (simp add: selectionInv_def selectAtom_core)
  ultimately show ?thesis by (simp add: selectAtom_core)
qed

lemma select_deselect_material:
  assumes "selectionInv s" "m \<in> set (meshIds (scene s))"
  shows "materialOf (scene (deselectAtom (snd (selectAtom m s)))) m =
           (if previousSelection s = Some m then previousMaterial s else materialOf (scene s) m)"
proof -
  let ?s1 = "restorePrevious s"
  let ?s' = "snd (selectAtom m s)"
  from restorePrevious_clean[OF assms(1)]
  have d: "distinct (map oid (attrsOf (scene ?s1)))"
    and mm: "\<forall>a\<in>set (attrsOf (scene ?s1)). okind a = Mesh \<longrightarrow> material a \<noteq> None"
    and mi: "meshIds (scene ?s1) = meshIds (scene s)" by auto
  from assms(2) mi have mesh: "m \<in> set (map oid (filter (\<lambda>a. okind a = Mesh) (attrsOf (scene ?s1))))"
    by (simp add: meshIds_attrs)
  then have inids: "m \<in> set (map oid (attrsOf (scene ?s1)))" by auto
  from mesh_material_found[OF mesh d mm] obtain x where x: "materialOf (scene ?s1) m = Some x"
    by (auto simp: materialOf_find)
  have "materialOf (scene (deselectAtom ?s')) m = Some x"
    using inids
    by (simp add: deselectAtom_core selectAtom_core x materialOf_setMaterial_same ids_setMaterial)
  moreover have "materialOf (scene ?s1) m =
      (if previousSelection s = Some m then previousMaterial s else materialOf (scene s) m)"
  proof (cases "previousSelection s")
    case None
    then show ?thesis by (simp add: restorePrevious_scene)
  next
    case (Some p)
    with assms(1) obtain y where y: "previousMaterial s = Some y" by (auto simp: selectionInv_iff)
    show ?thesis
    proof (cases "p = m")
      case True
      from assms(2) have "m \<in> set (map oid (attrsOf (scene s)))" by (auto simp: meshIds_attrs)
      then show ?thesis using Some y True
        by (simp add: restorePrevious_scene materialOf_setMaterial_same)
    next
      case False
      then show ?thesis using Some y
        by (simp add: restorePrevious_scene materialOf_setMaterial_other)
    qed
  qed
  ultimately show ?thesis using x by simp
qed

lemma deselectAtom_idem: "deselectAtom (deselectAtom s) = deselectAtom s"
  by (auto simp: deselectAtom_def Let_def split: option.splits)

lemma deselectAtom_nothing_selected:
  "previousSelection s = None \<Longrightarrow> scene (deselectAtom s) = scene s"
  by (simp add: deselectAtom_core)

section \<open>The pointer handler\<close>

lemma pointerdown_no_panel:
  assumes "infoPanel s = None"
  shows "fst (pointerdown rc s) = None \<and> infoPanel (snd (pointerdown rc s)) = None \<and>
     infoTitle (snd (pointerdown rc s)) = infoTitle s \<and>
     infoElement (snd (pointerdown rc s)) = infoElement s \<and>
     infoRole (snd (pointerdown rc s)) = infoRole s \<and>
     infoCharge (snd (pointerdown rc s)) = infoCharge s"
  using selectAtom_no_panel[OF assms] assms
  by (auto simp: pointerdown_cases deselectAtom_panel split: list.splits)

lemma candidates_meshes:
  "list_all (\<lambda>obj. okind (attrs obj) = Mesh) (candidates t)"
  by (simp add: candidates_def list_all_iff isMesh_def)

text \<open>
  C3, as the code has it.  On a page reached by events, the objects tested against the
  ray are exactly the objects of the scene that are meshes, so never a bond line.
  When the ray hits, the first hit is a closest one and its mesh is selected: it
  carries the highlight material, it is the selection, and no other object carries
  that material; and when the info panel and its four text elements exist, the title
  is set from the name of the mesh, the other three texts from its user data, and the
  class \<^verbatim>\<open>hidden\<close> is removed from the panel.  When the ray hits nothing, the selection is
  cleared, no object carries the highlight material, and the panel, if there is one,
  gets the class \<^verbatim>\<open>hidden\<close>.
\<close>

theorem pointerdown_selects_closest:
  assumes "reachable s"
  shows "set (candidates (scene s)) = {obj \<in> set (traverse (scene s)). isMesh obj} \<and>
    list_all (\<lambda>obj. okind (attrs obj) = Mesh \<and> okind (attrs obj) \<noteq> Line) (candidates (scene s)) \<and>
    (case intersectObjects raycast (candidates (scene s)) of
       [] \<Rightarrow>
         pointerdown raycast s = (None, deselectAtom s) \<and>
         previousSelection (deselectAtom s) = None \<and>
         previousMaterial (deselectAtom s) = None \<and>
         highlighted (scene (deselectAtom s)) = [] \<and>
         infoPanel (deselectAtom s) = map_option (insert ''hidden'') (infoPanel s)
     | h # hs \<Rightarrow>
         (\<forall>h'\<in>set (h # hs). fst h \<le> fst h') \<and>
         snd h \<in> set (meshIds (scene s)) \<and>
         pointerdown raycast s = selectAtom (snd h) s \<and>
         materialOf (scene (snd (selectAtom (snd h) s))) (snd h) = Some highlightMaterial \<and>
         previousSelection (snd (selectAtom (snd h) s)) = Some (snd h) \<and>
         list_all (\<lambda>a. oid a = snd h) (highlighted (scene (snd (selectAtom (snd h) s)))) \<and>
         (\<forall>obj cl. getObject (scene s) (snd h) = Some obj \<and> infoPanel s = Some cl \<and>
             infoTitle s \<noteq> None \<and> infoElement s \<noteq> None \<and> infoRole s \<noteq> None \<and>
             infoCharge s \<noteq> None \<longrightarrow>
             fst (selectAtom (snd h) s) = None \<and>
             infoPanel (snd (selectAtom (snd h) s)) = Some (cl - {''hidden''}) \<and>
             infoTitle (snd (selectAtom (snd h) s)) = Some (or_dash (Some (oname (attrs obj)))) \<and>
             infoElement (snd (selectAtom (snd h) s)) =
               Some (or_dash (element (userData (attrs obj)))) \<and>
             infoRole (snd (selectAtom (snd h) s)) = Some (or_dash (role (userData (attrs obj)))) \<and>
             infoCharge (snd (selectAtom (snd h) s)) =
               Some (or_dash (charge (userData (attrs obj))))))"
proof -
  from assms have inv: "selectionInv s" by (rule reachable_inv)
  have c: "list_all (\<lambda>obj. okind (attrs obj) = Mesh \<and> okind (attrs obj) \<noteq> Line) (candidates (scene s))"
    using candidates_meshes[of "scene s"] by (simp add: list_all_iff)
  show ?thesis
  proof (cases "intersectObjects raycast (candidates (scene s))")
    case Nil
    then show ?thesis
      using deselectAtom_inv[OF inv] c
      by (simp add: pointerdown_cases candidates_def deselectAtom_panel)
  next
    case (Cons h hs)
    from intersect_head[OF Cons] have m: "snd h \<in> set (meshIds (scene s))"
      and cl: "\<forall>h'\<in>set (h # hs). fst h \<le> fst h'"
      by (simp_all add: meshIds_def)
    have panel: "\<forall>obj cl. getObject (scene s) (snd h) = Some obj \<and> infoPanel s = Some cl \<and>
             infoTitle s \<noteq> None \<and> infoElement s \<noteq> None \<and> infoRole s \<noteq> None \<and>
             infoCharge s \<noteq> None \<longrightarrow>
             fst (selectAtom (snd h) s) = None \<and>
             infoPanel (snd (selectAtom (snd h) s)) = Some (cl - {''hidden''}) \<and>
             infoTitle (snd (selectAtom (snd h) s)) = Some (or_dash (Some (oname (attrs obj)))) \<and>
             infoElement (snd (selectAtom (snd h) s)) =
               Some (or_dash (element (userData (attrs obj)))) \<and>
             infoRole (snd (selectAtom (snd h) s)) = Some (or_dash (role (userData (attrs obj)))) \<and>
             infoCharge (snd (selectAtom (snd h) s)) =
               Some (or_dash (charge (userData (attrs obj))))"
      using selectAtom_panel[of s "snd h"] by blast
    show ?thesis
      using selectAtom_highlights[OF inv m] c cl m panel Cons
      by (simp add: pointerdown_cases candidates_def)
  qed
qed

theorem pointerdown_selects_closest_witness:
  "reachable examplePage \<and>
   intersectObjects rayAtAluminium (candidates (scene examplePage)) = [(1, 7)] \<and>
   pointerdown rayAtAluminium examplePage = selectAtom 7 examplePage \<and>
   materialOf (scene (snd (selectAtom 7 examplePage))) 7 = Some highlightMaterial \<and>
   fst (selectAtom 7 examplePage) = None \<and>
   infoPanel (snd (selectAtom 7 examplePage)) = Some {} \<and>
   infoTitle (snd (selectAtom 7 examplePage)) = Some ''Al'' \<and>
   infoElement (snd (selectAtom 7 examplePage)) = Some ''Al'' \<and>
   infoRole (snd (selectAtom 7 examplePage)) = Some ''Metal center (Lewis acid)'' \<and>
   infoCharge (snd (selectAtom 7 examplePage)) = Some ''+3'' \<and>
   intersectObjects (\<lambda>obj. []) (candidates (scene examplePage)) = [] \<and>
   pointerdown (\<lambda>obj. []) examplePage = (None, deselectAtom examplePage) \<and>
   infoPanel (deselectAtom examplePage) = Some {''hidden''}"
  using pointerdown_selects_closest[OF reachable_examplePage, of rayAtAluminium]
    pointerdown_selects_closest[OF reachable_examplePage, of "\<lambda>obj. []"]
    reachable_examplePage
  by (simp add: aluminium_in_example examplePage_fields(2-) or_dash_def createAlCenter_def
      newMesh_def newObject_def)

text \<open>
  C3 as stated promises the populated panel for every pointer event.  On a page whose
  info panel is missing while its text elements exist, the guard \<^verbatim>\<open>if (infoPanel)\<close>
  skips the block: the ray hits the aluminium mesh, the handler ends normally, and the
  texts are as empty as before.
\<close>

theorem pointerdown_without_panel:
  "intersectObjects rayAtAluminium (candidates (scene pageWithoutPanel)) = [(1, 7)] \<and>
   infoPanel pageWithoutPanel = None \<and>
   infoElement pageWithoutPanel = Some [] \<and>
   fst (pointerdown rayAtAluminium pageWithoutPanel) = None \<and>
   infoPanel (snd (pointerdown rayAtAluminium pageWithoutPanel)) = None \<and>
   infoTitle (snd (pointerdown rayAtAluminium pageWithoutPanel)) = Some [] \<and>
   infoElement (snd (pointerdown rayAtAluminium pageWithoutPanel)) = Some []"
proof -
  have p: "infoPanel pageWithoutPanel = None" by (simp add: pageWithoutPanel_def)
  have sc: "scene pageWithoutPanel = scene examplePage" by (simp add: pageWithoutPanel_def)
  show ?thesis
    using pointerdown_no_panel[OF p, of rayAtAluminium] aluminium_in_example(4)
    by (simp add: sc) (simp add: pageWithoutPanel_def examplePage_fields)
qed

section \<open>Missing elements of the document\<close>

lemma selectAtom_complete:
  assumes "infoPanel s = None \<or>
     (infoTitle s \<noteq> None \<and> infoElement s \<noteq> None \<and> infoRole s \<noteq> None \<and> infoCharge s \<noteq> None)"
  shows "fst (selectAtom m s) = None"
  using assms
  by (auto simp: selectAtom_def Let_def storeAndSwap_fields populate_complete split: option.splits)

lemma pointerdown_complete:
  assumes "infoPanel s = None \<or>
     (infoTitle s \<noteq> None \<and> infoElement s \<noteq> None \<and> infoRole s \<noteq> None \<and> infoCharge s \<noteq> None)"
  shows "fst (pointerdown rc s) = None"
  using selectAtom_complete[OF assms] by (simp add: pointerdown_cases split: list.splits)

lemma stageClick_complete:
  "stageLabel (buttons s ! k) \<noteq> None \<Longrightarrow> fst (stageClick k s) = None"
  by (auto simp: stageClick_def Let_def)

lemma pageWithoutTitle_fields:
  "scene pageWithoutTitle = scene examplePage"
  "infoPanel pageWithoutTitle = Some {''hidden''}"
  "infoTitle pageWithoutTitle = None"
  by (simp_all add: pageWithoutTitle_def examplePage_fields)

lemma meshIds_in_ids: "m \<in> set (meshIds t) \<Longrightarrow> m \<in> set (map oid (attrsOf t))"
  by (auto simp: meshIds_attrs)

text \<open>
  C4, as the code has it.  \<^verbatim>\<open>deselectAtom\<close> never throws, and it is registered on the
  close button only when that button exists.  \<^verbatim>\<open>selectAtom\<close> and the pointer handler end
  without an error when the info panel is missing, and when the four text elements
  exist.  The stage handler ends without an error when the clicked button has a
  \<^verbatim>\<open>.stage-label\<close> child.
\<close>

theorem handlers_complete_when_elements_present:
  "fst (closeClick s) = None \<and>
   (CloseClick \<in> set (initInteraction s) \<longleftrightarrow> infoClose s) \<and>
   (infoPanel s = None \<or>
      (infoTitle s \<noteq> None \<and> infoElement s \<noteq> None \<and> infoRole s \<noteq> None \<and>
       infoCharge s \<noteq> None) \<longrightarrow>
      fst (selectAtom m s) = None \<and> fst (pointerdown raycast s) = None) \<and>
   (stageLabel (buttons s ! k) \<noteq> None \<longrightarrow> fst (stageClick k s) = None)"
  using selectAtom_complete[of s m] pointerdown_complete[of s raycast] stageClick_complete[of s k]
  by (auto simp: closeClick_def initInteraction_def)

theorem handlers_complete_when_elements_present_witness:
  "fst (closeClick examplePage) = None \<and>
   CloseClick \<in> set (initInteraction examplePage) \<and>
   fst (selectAtom 7 examplePage) = None \<and>
   fst (pointerdown rayAtAluminium examplePage) = None \<and>
   fst (selectAtom 7 pageWithoutPanel) = None \<and>
   fst (stageClick 1 examplePage) = None"
  using handlers_complete_when_elements_present[of examplePage 7 rayAtAluminium 1]
    handlers_complete_when_elements_present[of pageWithoutPanel 7 rayAtAluminium 1]
  by (simp add: examplePage_fields(2-) pageWithoutPanel_def stageButton_def)

text \<open>
  C4 as stated lets any text element of the panel be \<^verbatim>\<open>null\<close>.  With the panel present
  and the title element missing, \<^verbatim>\<open>selectAtom\<close> throws a \<^verbatim>\<open>TypeError\<close> at its first
  assignment, and so does the pointer handler that calls it.
\<close>

theorem selectAtom_throws_without_title:
  "infoPanel pageWithoutTitle = Some {''hidden''} \<and> infoTitle pageWithoutTitle = None \<and>
   7 \<in> set (meshIds (scene pageWithoutTitle)) \<and>
   fst (selectAtom 7 pageWithoutTitle) = Some (TypeError ''infoTitle is null'') \<and>
   intersectObjects rayAtAluminium (candidates (scene pageWithoutTitle)) = [(1, 7)] \<and>
   fst (pointerdown rayAtAluminium pageWithoutTitle) = Some (TypeError ''infoTitle is null'')"
proof -
  have m: "7 \<in> set (meshIds (scene pageWithoutTitle))"
    by (simp add: pageWithoutTitle_fields(1) aluminium_in_example(1))
  have h: "intersectObjects rayAtAluminium (candidates (scene pageWithoutTitle)) = [(1, 7)]"
    by (simp add: pageWithoutTitle_fields(1) aluminium_in_example(4))
  from selectAtom_throws[OF meshIds_in_ids[OF m] pageWithoutTitle_fields(2,3)]
  have t: "fst (selectAtom 7 pageWithoutTitle) = Some (TypeError ''infoTitle is null'')" by simp
  show ?thesis using m h t
    by (simp add: pageWithoutTitle_fields(2,3) pointerdown_cases)
qed

section \<open>Selecting and deselecting\<close>

lemma selectAtom_meshIds:
  "selectionInv s \<Longrightarrow> meshIds (scene (snd (selectAtom m s))) = meshIds (scene s)"
  using restorePrevious_clean[of s] by (simp add: selectAtom_core meshIds_setMaterial)

lemma restorePrevious_nothing_selected:
  "previousSelection s = None \<Longrightarrow> restorePrevious s = s"
  by (simp add: restorePrevious_def)

lemma reachable_selected: "reachable (snd (selectAtom 7 examplePage))"
proof -
  have "PointerDown \<in> set (handlers examplePage)" by (simp add: handlers_def initInteraction_def)
  from reachable.event[OF reachable_examplePage this, of rayAtAluminium]
  show ?thesis by (simp add: handle_def pointerdown_cases aluminium_in_example(4))
qed

text \<open>
  C9, as the code has it.  On a page reached by events and for a mesh \<open>m\<close> of the scene:
  when \<open>m\<close> is not the current selection, \<^verbatim>\<open>selectAtom(m)\<close> followed by
  \<^verbatim>\<open>deselectAtom()\<close> leaves \<open>m\<close> with the material it had before; when \<open>m\<close> is already
  selected, the pair leaves it with the material remembered at its selection, which is
  not the highlight material.  After the pair nothing is selected, a further
  \<^verbatim>\<open>deselectAtom()\<close> changes nothing, and \<^verbatim>\<open>deselectAtom()\<close> with nothing selected leaves
  the scene as it is.  At most one object carries the highlight material, before the
  pair, between its two calls and after it (then none).
\<close>

theorem select_then_deselect_restores:
  assumes "reachable s" "m \<in> set (meshIds (scene s))"
  shows "(previousSelection s \<noteq> Some m \<longrightarrow>
            materialOf (scene (deselectAtom (snd (selectAtom m s)))) m = materialOf (scene s) m) \<and>
         (previousSelection s = Some m \<longrightarrow>
            materialOf (scene (deselectAtom (snd (selectAtom m s)))) m = previousMaterial s \<and>
            previousMaterial s \<noteq> Some highlightMaterial) \<and>
         previousSelection (deselectAtom (snd (selectAtom m s))) = None \<and>
         deselectAtom (deselectAtom (snd (selectAtom m s))) = deselectAtom (snd (selectAtom m s)) \<and>
         (previousSelection s = None \<longrightarrow> scene (deselectAtom s) = scene s) \<and>
         length (highlighted (scene s)) \<le> 1 \<and>
         length (highlighted (scene (snd (selectAtom m s)))) \<le> 1 \<and>
         highlighted (scene (deselectAtom (snd (selectAtom m s)))) = []"
proof -
  from assms(1) have inv: "selectionInv s" by (rule reachable_inv)
  have inv1: "selectionInv (snd (selectAtom m s))" by (rule selectAtom_inv[OF inv assms(2)])
  from inv have "previousSelection s = Some m \<longrightarrow> previousMaterial s \<noteq> Some highlightMaterial"
    by (auto simp: selectionInv_def)
  then show ?thesis
    using select_deselect_material[OF inv assms(2)] deselectAtom_inv[OF inv1]
      at_most_one_highlighted[OF inv] at_most_one_highlighted[OF inv1]
      deselectAtom_nothing_selected[of s]
    by (simp add: deselectAtom_idem)
qed

theorem select_then_deselect_restores_witness:
  "reachable examplePage \<and> 7 \<in> set (meshIds (scene examplePage)) \<and>
   previousSelection examplePage \<noteq> Some 7 \<and>
   materialOf (scene (deselectAtom (snd (selectAtom 7 examplePage)))) 7 = Some aluminumMaterial \<and>
   reachable (snd (selectAtom 7 examplePage)) \<and>
   previousSelection (snd (selectAtom 7 examplePage)) = Some 7 \<and>
   materialOf (scene (deselectAtom (snd (selectAtom 7 (snd (selectAtom 7 examplePage)))))) 7 =
     previousMaterial (snd (selectAtom 7 examplePage)) \<and>
   scene (deselectAtom examplePage) = scene examplePage \<and>
   highlighted (scene (deselectAtom (snd (selectAtom 7 examplePage)))) = []"
proof -
  have m1: "7 \<in> set (meshIds (scene (snd (selectAtom 7 examplePage))))"
    by (simp add: selectAtom_meshIds[OF reachable_inv[OF reachable_examplePage]]
        aluminium_in_example(1))
  show ?thesis
    using select_then_deselect_restores[OF reachable_examplePage aluminium_in_example(1)]
      select_then_deselect_restores[OF reachable_selected m1]
      reachable_examplePage reachable_selected
    by (simp add: aluminium_in_example(1,2) examplePage_fields(2) selectAtom_core)
qed

text \<open>
  C9 as stated speaks of every mesh.  For the mesh that is selected already, the
  material before \<^verbatim>\<open>selectAtom\<close> is the highlight material, and after the pair it is the
  aluminium material: \<^verbatim>\<open>selectAtom\<close> restores the previous selection first.
\<close>

theorem reselect_not_restored:
  "7 \<in> set (meshIds (scene (snd (selectAtom 7 examplePage)))) \<and>
   previousSelection (snd (selectAtom 7 examplePage)) = Some 7 \<and>
   materialOf (scene (snd (selectAtom 7 examplePage))) 7 = Some highlightMaterial \<and>
   materialOf (scene (deselectAtom (snd (selectAtom 7 (snd (selectAtom 7 examplePage)))))) 7 =
     Some aluminumMaterial"
proof -
  let ?s1 = "snd (selectAtom 7 examplePage)"
  have inv0: "selectionInv examplePage" by (rule reachable_inv[OF reachable_examplePage])
  have inv1: "selectionInv ?s1" by (rule selectAtom_inv[OF inv0 aluminium_in_example(1)])
  have m1: "7 \<in> set (meshIds (scene ?s1))"
    by (simp add: selectAtom_meshIds[OF inv0] aluminium_in_example(1))
  have pm: "previousMaterial ?s1 = Some aluminumMaterial"
    by (simp add: selectAtom_core restorePrevious_nothing_selected examplePage_fields(2)
        aluminium_in_example(2))
  from select_deselect_material[OF inv1 m1] selectAtom_highlights[OF inv0 aluminium_in_example(1)]
  show ?thesis using m1 pm by (simp add: selectAtom_core)
qed

section \<open>The stage buttons of main.js\<close>

lemma parse_stage_1: "parseInt10 (Some ''1'') = Num 1" "parseInt10 (Some ''0'') = Num 0"
  by (simp_all add: parseInt10_def isSpace_def isDigit_def digitVal_def Let_def)

lemma stage_1_string: "jsnum_string (Num 1) = ''1''"
  by (simp add: jsnum_string_def digit_string.simps)

lemma first_click:
  "stageClick 0 examplePage = (None, examplePage)"
  "currentStage (snd (stageClick 1 examplePage)) = Num 1"
  "buttons (snd (stageClick 1 examplePage)) =
     [\<lparr>dataStage = Some ''0'', classList = {''stage-btn''}, stageLabel = Some ''Complex''\<rparr>,
      \<lparr>dataStage = Some ''1'', classList = {''stage-btn'', ''active''},
        stageLabel = Some ''Dissolution''\<rparr>,
      \<lparr>dataStage = Some ''2'', classList = {''stage-btn''}, stageLabel = Some ''Hydration''\<rparr>,
      \<lparr>dataStage = Some ''3'', classList = {''stage-btn''}, stageLabel = Some ''Hydrolysis''\<rparr>]"
  "console (snd (stageClick 1 examplePage)) = [arrow @ '' Stage 1: Dissolution'']"
  "fst (stageClick 1 examplePage) = None"
  by (auto simp: stageClick_def Let_def examplePage_fields(2-) stageButton_def parse_stage_1
      stage_1_string)

text \<open>
  C5.  A click on a stage button leaves the scene, the camera position, the controls
  target and the selection state as they are: the state afterwards differs from the
  state before in \<open>currentStage\<close>, the class lists of the buttons and the console at
  most.  When the stage of the button equals \<open>currentStage\<close> nothing changes at all.
  Otherwise \<open>currentStage\<close> becomes the stage of the button, the class \<^verbatim>\<open>active\<close> is
  taken from every button and given to the clicked one, and one line is logged (none
  when the button has no label, where the handler throws instead).
\<close>

theorem stage_click_leaves_scene:
  "(let s' = snd (stageClick k s); stage = parseInt10 (dataStage (buttons s ! k)) in
     scene s' = scene s \<and> camera_position s' = camera_position s \<and>
     controls_target s' = controls_target s \<and>
     selectionView s' = selectionView s \<and> infoClose s' = infoClose s \<and>
     s' = s\<lparr>currentStage := currentStage s', buttons := buttons s', console := console s'\<rparr> \<and>
     (k < length (buttons s) \<and> strict_eq stage (currentStage s) \<longrightarrow>
        stageClick k s = (None, s)) \<and>
     (k < length (buttons s) \<and> \<not> strict_eq stage (currentStage s) \<longrightarrow>
        currentStage s' = stage \<and>
        buttons s' = (map (\<lambda>b. b\<lparr>classList := classList b - {''active''}\<rparr>) (buttons s))
           [k := (buttons s ! k)
              \<lparr>classList := insert ''active'' (classList (buttons s ! k) - {''active''})\<rparr>] \<and>
        console s' = console s @
           (case stageLabel (buttons s ! k) of None \<Rightarrow> []
            | Some label \<Rightarrow> [arrow @ '' Stage '' @ jsnum_string stage @ '': '' @ label])))"
  by (auto simp: stageClick_def Let_def selectionView_def split: option.splits)

theorem stage_click_leaves_scene_witness:
  "stageClick 0 examplePage = (None, examplePage) \<and>
   scene (snd (stageClick 1 examplePage)) = scene examplePage \<and>
   camera_position (snd (stageClick 1 examplePage)) = camera_position examplePage \<and>
   currentStage (snd (stageClick 1 examplePage)) = Num 1 \<and>
   map classList (buttons (snd (stageClick 1 examplePage))) =
     [{''stage-btn''}, {''stage-btn'', ''active''}, {''stage-btn''}, {''stage-btn''}] \<and>
   console (snd (stageClick 1 examplePage)) =
     console examplePage @ [arrow @ '' Stage 1: Dissolution'']"
proof -
  have h0: "0 < length (buttons examplePage) \<and>
      strict_eq (parseInt10 (dataStage (buttons examplePage ! 0))) (currentStage examplePage)"
    by (simp add: examplePage_fields(2-) stageButton_def parse_stage_1)
  have h1: "1 < length (buttons examplePage) \<and>
      \<not> strict_eq (parseInt10 (dataStage (buttons examplePage ! 1))) (currentStage examplePage)"
    by (simp add: examplePage_fields(2-) stageButton_def parse_stage_1)
  have p1: "parseInt10 (dataStage (buttons examplePage ! 1)) = Num 1"
    by (simp add: examplePage_fields(2-) stageButton_def parse_stage_1)
  from stage_click_leaves_scene[of 0 examplePage] h0
  have a: "stageClick 0 examplePage = (None, examplePage)" by (simp add: Let_def)
  from stage_click_leaves_scene[of 1 examplePage] h1 p1
  have b: "scene (snd (stageClick 1 examplePage)) = scene examplePage \<and>
      camera_position (snd (stageClick 1 examplePage)) = camera_position examplePage \<and>
      currentStage (snd (stageClick 1 examplePage)) = Num 1 \<and>
      buttons (snd (stageClick 1 examplePage)) =
        (map (\<lambda>b. b\<lparr>classList := classList b - {''active''}\<rparr>) (buttons examplePage))
          [1 := (buttons examplePage ! 1)
             \<lparr>classList := insert ''active'' (classList (buttons examplePage ! 1) - {''active''})\<rparr>] \<and>
      console (snd (stageClick 1 examplePage)) =
        console examplePage @
          (case stageLabel (buttons examplePage ! 1) of None \<Rightarrow> []
           | Some label \<Rightarrow> [arrow @ '' Stage '' @ jsnum_string (Num 1) @ '': '' @ label])"
    by (simp add: Let_def split: option.splits)
  have c: "map classList
      ((map (\<lambda>b. b\<lparr>classList := classList b - {''active''}\<rparr>) (buttons examplePage))
          [1 := (buttons examplePage ! 1)
             \<lparr>classList := insert ''active'' (classList (buttons examplePage ! 1) - {''active''})\<rparr>]) =
      [{''stage-btn''}, {''stage-btn'', ''active''}, {''stage-btn''}, {''stage-btn''}]"
    by (auto simp: examplePage_fields(2-) stageButton_def)
  show ?thesis
    using a b c by (simp add: examplePage_fields(2-) stageButton_def stage_1_string)
qed

section \<open>Module state that the handlers read\<close>

lemma stageClick_view:
  assumes "stageView s = stageView t"
  shows "fst (stageClick k s) = fst (stageClick k t) \<and>
         stageView (snd (stageClick k s)) = stageView (snd (stageClick k t))"
  using assms by (auto simp: stageView_def stageClick_def Let_def split: option.splits)

lemma restorePrevious_view:
  "selectionView s = selectionView t \<Longrightarrow>
   selectionView (restorePrevious s) = selectionView (restorePrevious t)"
  by (auto simp: selectionView_def restorePrevious_def split: option.splits)

lemma storeAndSwap_view:
  assumes "selectionView s = selectionView t"
  shows "selectionView (storeAndSwap m s) = selectionView (storeAndSwap m t)"
  using restorePrevious_view[OF assms]
  by (simp add: selectionView_def storeAndSwap_def Let_def)

lemma populate_view:
  assumes "selectionView s = selectionView t"
  shows "fst (populate cl a s) = fst (populate cl a t) \<and>
         selectionView (snd (populate cl a s)) = selectionView (snd (populate cl a t))"
  using assms by (simp add: selectionView_def populate_def Let_def)

lemma selectAtom_view:
  assumes "selectionView s = selectionView t"
  shows "fst (selectAtom m s) = fst (selectAtom m t) \<and>
         selectionView (snd (selectAtom m s)) = selectionView (snd (selectAtom m t))"
proof -
  from storeAndSwap_view[OF assms, of m]
  have v: "selectionView (storeAndSwap m s) = selectionView (storeAndSwap m t)" .
  then have e: "scene (storeAndSwap m s) = scene (storeAndSwap m t)"
    "infoPanel (storeAndSwap m s) = infoPanel (storeAndSwap m t)"
    by (simp_all add: selectionView_def)
  show ?thesis
    using populate_view[OF v] v
    by (auto simp: selectAtom_def Let_def e split: option.splits)
qed

lemma deselectAtom_view:
  assumes "selectionView s = selectionView t"
  shows "selectionView (deselectAtom s) = selectionView (deselectAtom t)"
  using assms by (auto simp: selectionView_def deselectAtom_def Let_def split: option.splits)

lemma pointerdown_view:
  assumes "selectionView s = selectionView t"
  shows "fst (pointerdown rc s) = fst (pointerdown rc t) \<and>
         selectionView (snd (pointerdown rc s)) = selectionView (snd (pointerdown rc t))"
proof -
  from assms have "scene s = scene t" by (simp add: selectionView_def)
  then show ?thesis
    using selectAtom_view[OF assms] deselectAtom_view[OF assms]
    by (simp add: pointerdown_cases split: list.splits)
qed

lemma selectAtom_stageView: "stageView (snd (selectAtom m s)) = stageView s"
  by (simp add: selectAtom_def Let_def populate_frame storeAndSwap_fields split: option.splits)

lemma pointerdown_stageView: "stageView (snd (pointerdown rc s)) = stageView s"
  by (simp add: pointerdown_cases selectAtom_stageView deselectAtom_panel split: list.splits)

text \<open>
  C6, as the code has it.  The handlers read module variables that earlier handler
  runs have written.  What the stage handler does is a function of the clicked button,
  the stage buttons, the console and the variable \<open>currentStage\<close>; what the pointer
  handler and the close handler do is a function of the ray, the scene, the info
  elements and the variables \<open>previousSelection\<close> and \<open>previousMaterial\<close>.  Neither group
  touches what the other one reads.
\<close>

theorem handlers_read_module_state:
  "(stageView s = stageView t \<longrightarrow>
      fst (stageClick k s) = fst (stageClick k t) \<and>
      stageView (snd (stageClick k s)) = stageView (snd (stageClick k t))) \<and>
   (selectionView s = selectionView t \<longrightarrow>
      fst (pointerdown raycast s) = fst (pointerdown raycast t) \<and>
      selectionView (snd (pointerdown raycast s)) = selectionView (snd (pointerdown raycast t)) \<and>
      fst (closeClick s) = fst (closeClick t) \<and>
      selectionView (snd (closeClick s)) = selectionView (snd (closeClick t))) \<and>
   selectionView (snd (stageClick k s)) = selectionView s \<and>
   stageView (snd (pointerdown raycast s)) = stageView s \<and>
   stageView (snd (closeClick s)) = stageView s"
  using stageClick_view[of s t k] pointerdown_view[of s t raycast] deselectAtom_view[of s t]
  by (simp add: closeClick_def stageClick_frame pointerdown_stageView deselectAtom_panel)

theorem handlers_read_module_state_witness:
  "stageView examplePage = stageView pageWithoutPanel \<and>
   fst (stageClick 1 examplePage) = fst (stageClick 1 pageWithoutPanel) \<and>
   stageView (snd (stageClick 1 examplePage)) = stageView (snd (stageClick 1 pageWithoutPanel)) \<and>
   selectionView examplePage = selectionView (snd (stageClick 1 examplePage)) \<and>
   fst (pointerdown rayAtAluminium examplePage) =
     fst (pointerdown rayAtAluminium (snd (stageClick 1 examplePage))) \<and>
   selectionView (snd (pointerdown rayAtAluminium examplePage)) =
     selectionView (snd (pointerdown rayAtAluminium (snd (stageClick 1 examplePage))))"
proof -
  have v: "stageView examplePage = stageView pageWithoutPanel"
    by (simp add: stageView_def pageWithoutPanel_def)
  have w: "selectionView examplePage = selectionView (snd (stageClick 1 examplePage))"
    by (simp add: stageClick_frame)
  show ?thesis
    using handlers_read_module_state[of examplePage pageWithoutPanel 1 rayAtAluminium]
      handlers_read_module_state[of examplePage "snd (stageClick 1 examplePage)" 1 rayAtAluminium]
      v w
    by simp
qed

text \<open>
  C6 as stated makes the behaviour of a handler a function of its event and the scene.
  The same click on the second stage button, on the same scene, logs a line and
  changes the stage the first time and does nothing the second time: the first run
  has assigned \<open>currentStage\<close>.
\<close>

theorem second_click_differs:
  "scene (snd (stageClick 1 examplePage)) = scene examplePage \<and>
   currentStage examplePage = Num 0 \<and>
   console (snd (stageClick 1 examplePage)) =
     console examplePage @ [arrow @ '' Stage 1: Dissolution''] \<and>
   currentStage (snd (stageClick 1 examplePage)) = Num 1 \<and>
   stageClick 1 (snd (stageClick 1 examplePage)) = (None, snd (stageClick 1 examplePage))"
proof -
  have "stageClick 1 (snd (stageClick 1 examplePage)) = (None, snd (stageClick 1 examplePage))"
    apply (subst stageClick_def)
    using first_click(2,3) by (simp add: Let_def parse_stage_1)
  then show ?thesis
    using first_click by (simp add: examplePage_fields(2-) stageClick_frame)
qed

end
